theory Spec2Isabelle
  imports Complex_Main
begin

section \<open>ARC research assistant: credential resolution and hybrid retrieval\<close>

text \<open>
  A shallow embedding of \<^verbatim>\<open>streamlit_app.py\<close>. A Python \<^verbatim>\<open>str\<close> is a
  \<^typ>\<open>string\<close>, one \<^typ>\<open>char\<close> standing for one character of the Python string.
  A raised exception is a value: every call that can raise returns a sum whose left
  injection carries the exception.
\<close>

subsection \<open>Exceptions\<close>

text \<open>
  An exception is its class name and the text \<^verbatim>\<open>str(e)\<close> gives. All exceptions of
  the model are instances of \<^verbatim>\<open>Exception\<close>, the class the handler of
  \<^verbatim>\<open>run_hybrid_query\<close> names.
\<close>

datatype pyexn = PyExn (exn_class: string) (exn_str: string)

subsection \<open>Credential resolution (module top level)\<close>

text \<open>
  \<^verbatim>\<open>os.getenv\<close> reads the process environment, a partial map. \<^verbatim>\<open>st.secrets[k]\<close>
  reads Streamlit's secret store, which is a secrets file or none at all. With no file
  the access raises \<^verbatim>\<open>StreamlitSecretNotFoundError\<close>, a \<^verbatim>\<open>FileNotFoundError\<close> and
  not a \<^verbatim>\<open>KeyError\<close>. With a file, reading it also writes each of its entries into
  \<^verbatim>\<open>os.environ\<close>, over the value the environment had, and the access raises
  \<^verbatim>\<open>KeyError\<close> on a key the file does not hold. The file is read on the first access
  and kept; writing its entries again changes nothing, so the model writes them at each
  access. The environment is therefore a state that the reads pass on. Each read is
  recorded, in order, so that it can be said which source was consulted.
\<close>

datatype cred_access = GetEnv string | SecretLookup string

definition os_getenv :: "(string \<rightharpoonup> string) \<Rightarrow> string \<Rightarrow> string option \<times> cred_access list" where
  "os_getenv env k = (env k, [GetEnv k])"

definition secrets_not_found :: pyexn where
  "secrets_not_found = PyExn ''StreamlitSecretNotFoundError'' ''No secrets found.''"

definition secrets_getitem ::
  "(string \<rightharpoonup> string) option \<Rightarrow> (string \<rightharpoonup> string) \<Rightarrow> string
     \<Rightarrow> (pyexn + string) \<times> (string \<rightharpoonup> string) \<times> cred_access list" where
  "secrets_getitem store env k =
     (case store of
        None \<Rightarrow> (Inl secrets_not_found, env, [SecretLookup k])
      | Some secrets \<Rightarrow>
          (case secrets k of
             None \<Rightarrow> (Inl (PyExn ''KeyError'' k), env ++ secrets, [SecretLookup k])
           | Some v \<Rightarrow> (Inr v, env ++ secrets, [SecretLookup k])))"

text \<open>
  \<^verbatim>\<open>os.getenv(k) or st.secrets[k]\<close>: Python's \<^verbatim>\<open>or\<close> yields its left operand when
  that is truthy (a string that is not empty; \<^verbatim>\<open>None\<close> is falsy) and evaluates the
  right operand only otherwise. The result comes with the environment the expression
  leaves.
\<close>

definition getenv_or_secret ::
  "(string \<rightharpoonup> string) option \<Rightarrow> (string \<rightharpoonup> string) \<Rightarrow> string
     \<Rightarrow> (pyexn + string) \<times> (string \<rightharpoonup> string) \<times> cred_access list" where
  "getenv_or_secret store env k =
     (case os_getenv env k of
        (Some v, t) \<Rightarrow>
          (if v \<noteq> [] then (Inr v, env, t)
           else (case secrets_getitem store env k of (r, env', t') \<Rightarrow> (r, env', t @ t')))
      | (None, t) \<Rightarrow> (case secrets_getitem store env k of (r, env', t') \<Rightarrow> (r, env', t @ t')))"

record credentials =
  api_key :: string
  neo_uri :: string
  neo_auth :: "string \<times> string"

text \<open>
  The outcome of the \<^verbatim>\<open>try\<close> block at the top of the module: the three names bound,
  or the script stopped by \<^verbatim>\<open>st.stop()\<close> after \<^verbatim>\<open>st.error\<close> has shown its message,
  or an exception the handler does not name, which leaves the block.
\<close>

datatype startup = Resolved credentials | Stopped string | Uncaught pyexn

definition missing_secrets_message :: string where
  "missing_secrets_message = ''Missing Secrets! Check .env or streamlit secrets.''"

text \<open>\<^verbatim>\<open>except KeyError\<close>: the handler takes an exception of that class and no other.\<close>

definition handle_key_error :: "pyexn \<Rightarrow> startup" where
  "handle_key_error e =
     (if exn_class e = ''KeyError'' then Stopped missing_secrets_message else Uncaught e)"

text \<open>
  The four reads, in the order of the source, each on the environment the one before
  it left.
\<close>

definition resolve_credentials ::
  "(string \<rightharpoonup> string) \<Rightarrow> (string \<rightharpoonup> string) option \<Rightarrow> startup \<times> cred_access list" where
  "resolve_credentials env store =
     (case getenv_or_secret store env ''GOOGLE_API_KEY'' of
        (Inl e, env1, t1) \<Rightarrow> (handle_key_error e, t1)
      | (Inr k, env1, t1) \<Rightarrow>
     (case getenv_or_secret store env1 ''NEO4J_URI'' of
        (Inl e, env2, t2) \<Rightarrow> (handle_key_error e, t1 @ t2)
      | (Inr u, env2, t2) \<Rightarrow>
     (case getenv_or_secret store env2 ''NEO4J_USER'' of
        (Inl e, env3, t3) \<Rightarrow> (handle_key_error e, t1 @ t2 @ t3)
      | (Inr usr, env3, t3) \<Rightarrow>
     (case getenv_or_secret store env3 ''NEO4J_PASSWORD'' of
        (Inl e, env4, t4) \<Rightarrow> (handle_key_error e, t1 @ t2 @ t3 @ t4)
      | (Inr pw, env4, t4) \<Rightarrow>
          (Resolved \<lparr>api_key = k, neo_uri = u, neo_auth = (usr, pw)\<rparr>,
           t1 @ t2 @ t3 @ t4)))))"


subsection \<open>Values read from the graph database\<close>

text \<open>
  A property of a node or relationship is a string or absent; an absent property is
  returned as null, which the driver hands to Python as \<^verbatim>\<open>None\<close>.
\<close>

datatype pyval = PNone | PStr string

text \<open>Interpolation into an f-string, \<^verbatim>\<open>f"{v}"\<close>.\<close>

fun format_val :: "pyval \<Rightarrow> string" where
  "format_val PNone = ''None''"
| "format_val (PStr x) = x"

text \<open>The slice \<^verbatim>\<open>v[:n]\<close>; \<^verbatim>\<open>None\<close> is not subscriptable.\<close>

fun slice_to :: "nat \<Rightarrow> pyval \<Rightarrow> pyexn + string" where
  "slice_to n PNone = Inl (PyExn ''TypeError'' '''NoneType' object is not subscriptable'')"
| "slice_to n (PStr x) = Inr (take n x)"

text \<open>\<^verbatim>\<open>sep.join(xs)\<close>.\<close>

fun str_join :: "string \<Rightarrow> string list \<Rightarrow> string" where
  "str_join sep [] = []"
| "str_join sep [x] = x"
| "str_join sep (x # y # ys) = x @ sep @ str_join sep (y # ys)"

text \<open>\<^verbatim>\<open>str(n)\<close> for a length: the decimal digits of a natural number.\<close>

fun str_nat :: "nat \<Rightarrow> string" where
  "str_nat n =
     (if n < 10 then [char_of (48 + n)]
      else str_nat (n div 10) @ [char_of (48 + n mod 10)])"

declare str_nat.simps [simp del]

subsection \<open>The graph database and the two Cypher queries\<close>

record node_props =
  node_name :: pyval
  node_text :: pyval

record relationship =
  rel_start :: nat
  rel_type :: string
  rel_end :: nat
  rel_evidence :: pyval

datatype cypher = ChunkQuery | TripleQuery

text \<open>
  The database: the properties of each node (nodes are numbered), the relationships, and
  for each named vector index and query vector the indexed nodes with their similarity
  scores, nearest first. Scores are real numbers; only their order against the threshold
  matters. \<open>session_fault\<close> and \<open>run_fault\<close> say which calls of the driver raise.
\<close>

record graph_db =
  props :: "nat \<Rightarrow> node_props"
  relationships :: "relationship list"
  vector_index :: "string \<Rightarrow> real list \<Rightarrow> (nat \<times> real) list"
  session_fault :: "pyexn option"
  run_fault :: "cypher \<Rightarrow> pyexn option"

record chunk_row =
  row_text :: pyval
  row_score :: real

record triple_row =
  row_s :: pyval
  row_rel :: string
  row_t :: pyval
  row_ev :: pyval

text \<open>\<^verbatim>\<open>CALL db.index.vector.queryNodes(index, k, $vec) YIELD node, score\<close>\<close>

definition queryNodes :: "graph_db \<Rightarrow> string \<Rightarrow> nat \<Rightarrow> real list \<Rightarrow> (nat \<times> real) list" where
  "queryNodes db index k vec = take k (vector_index db index vec)"

text \<open>
  \<^verbatim>\<open>CALL db.index.vector.queryNodes('paper_vectors', 5, $vec) YIELD node, score
  RETURN node.text as text, score\<close>
\<close>

definition chunk_query :: "graph_db \<Rightarrow> real list \<Rightarrow> chunk_row list" where
  "chunk_query db vec =
     map (\<lambda>(node, score). \<lparr>row_text = node_text (props db node), row_score = score\<rparr>)
       (queryNodes db ''paper_vectors'' 5 vec)"

text \<open>
  \<^verbatim>\<open>MATCH (start)-[r]-(end)\<close>: the relationships with \<open>start\<close> at either end, each
  paired with the node at its other end.
\<close>

definition match_hop :: "graph_db \<Rightarrow> nat \<Rightarrow> (relationship \<times> nat) list" where
  "match_hop db start =
     concat (map (\<lambda>r.
         (if rel_start r = start then [(r, rel_end r)] else []) @
         (if rel_end r = start \<and> rel_start r \<noteq> start then [(r, rel_start r)] else []))
       (relationships db))"

definition expand :: "graph_db \<Rightarrow> nat \<Rightarrow> triple_row list" where
  "expand db start =
     map (\<lambda>(r, end).
         \<lparr>row_s = node_name (props db start), row_rel = rel_type r,
          row_t = node_name (props db end), row_ev = rel_evidence r\<rparr>)
       (match_hop db start)"

text \<open>
  \<^verbatim>\<open>CALL db.index.vector.queryNodes('entity_vectors', 5, $vec) YIELD node AS start, score
  WHERE score > 0.72
  MATCH (start)-[r]-(end)
  RETURN start.name as s, type(r) as rel, end.name as t, r.evidence as ev
  LIMIT 15\<close>
\<close>

definition anchors :: "graph_db \<Rightarrow> real list \<Rightarrow> (nat \<times> real) list" where
  "anchors db vec = filter (\<lambda>(start, score). score > 0.72) (queryNodes db ''entity_vectors'' 5 vec)"

definition triple_query :: "graph_db \<Rightarrow> real list \<Rightarrow> triple_row list" where
  "triple_query db vec =
     take 15 (concat (map (\<lambda>(start, score). expand db start) (anchors db vec)))"

subsection \<open>The client, the driver and what a call does to them\<close>

text \<open>
  \<^verbatim>\<open>client.models.embed_content\<close> answers with a list of embeddings, each a vector, or
  raises; \<^verbatim>\<open>client.models.generate_content\<close> answers with a text or raises. Both take
  the model's name and the contents.
\<close>

record services =
  embed_content :: "string \<Rightarrow> string \<Rightarrow> pyexn + real list list"
  generate_content :: "string \<Rightarrow> string \<Rightarrow> pyexn + string"
  graph :: graph_db

text \<open>The calls a run makes on its collaborators, and what it prints, in order.\<close>

datatype event =
    EmbedContent string string
  | DriverSession
  | SessionRun cypher "real list"
  | SessionClose
  | Print string
  | GenerateContent string string

subsection \<open>\<^verbatim>\<open>run_hybrid_query\<close>\<close>

text \<open>
  The body of the first \<^verbatim>\<open>try\<close>: the embedding call and
  \<^verbatim>\<open>emb_resp.embeddings[0].values\<close>, which raises \<^verbatim>\<open>IndexError\<close> on an empty list.
\<close>

definition embed_query :: "services \<Rightarrow> string \<Rightarrow> pyexn + real list" where
  "embed_query sv query_text =
     (case embed_content sv ''text-embedding-004'' query_text of
        Inl e \<Rightarrow> Inl e
      | Inr embeddings \<Rightarrow>
          (case embeddings of
             [] \<Rightarrow> Inl (PyExn ''IndexError'' ''list index out of range'')
           | values # _ \<Rightarrow> Inr values))"

definition session_run_chunks :: "graph_db \<Rightarrow> real list \<Rightarrow> pyexn + chunk_row list" where
  "session_run_chunks db vec =
     (case run_fault db ChunkQuery of Some e \<Rightarrow> Inl e | None \<Rightarrow> Inr (chunk_query db vec))"

definition session_run_triples :: "graph_db \<Rightarrow> real list \<Rightarrow> pyexn + triple_row list" where
  "session_run_triples db vec =
     (case run_fault db TripleQuery of Some e \<Rightarrow> Inl e | None \<Rightarrow> Inr (triple_query db vec))"

text \<open>
  \<^verbatim>\<open>for rec in chunk_res: evidence_dump.append(f"- {rec['text'][:300]}...")\<close>
\<close>

fun literature_loop :: "chunk_row list \<Rightarrow> string list \<Rightarrow> pyexn + string list" where
  "literature_loop [] evidence_dump = Inr evidence_dump"
| "literature_loop (rec # rest) evidence_dump =
     (case slice_to 300 (row_text rec) of
        Inl e \<Rightarrow> Inl e
      | Inr snippet \<Rightarrow> literature_loop rest (evidence_dump @ [''- '' @ snippet @ ''...'']))"

text \<open>\<^verbatim>\<open>f"{row['s']} -> {row['rel']} -> {row['t']}"\<close>\<close>

definition triple_of :: "triple_row \<Rightarrow> string" where
  "triple_of row =
     format_val (row_s row) @ '' -> '' @ row_rel row @ '' -> '' @ format_val (row_t row)"

text \<open>
  The loop over \<^verbatim>\<open>triple_res\<close>, on the pair of \<^verbatim>\<open>evidence_dump\<close> and
  \<^verbatim>\<open>seen_triples\<close>.
\<close>

fun facts_loop :: "triple_row list \<Rightarrow> string list \<times> string set \<Rightarrow> string list \<times> string set" where
  "facts_loop [] st = st"
| "facts_loop (row # rest) (evidence_dump, seen_triples) =
     (let triple = triple_of row in
      if triple \<notin> seen_triples
      then facts_loop rest (evidence_dump @ [''FACT: '' @ triple], insert triple seen_triples)
      else facts_loop rest (evidence_dump, seen_triples))"

definition debug_line :: "nat \<Rightarrow> string \<Rightarrow> string" where
  "debug_line n query_text =
     ''DEBUG: Found '' @ str_nat n @ '' unique graph facts for query: ''
       @ [CHR 0x27] @ query_text @ [CHR 0x27]"

text \<open>The block under \<^verbatim>\<open>with driver.session() as sess\<close>.\<close>

definition session_body :: "graph_db \<Rightarrow> real list \<Rightarrow> string \<Rightarrow> (pyexn + string list) \<times> event list" where
  "session_body db q_vec query_text =
     (case session_run_chunks db q_vec of
        Inl e \<Rightarrow> (Inl e, [SessionRun ChunkQuery q_vec])
      | Inr chunk_res \<Rightarrow>
     (case literature_loop chunk_res ([] @ [''=== LITERATURE SNIPPETS ==='']) of
        Inl e \<Rightarrow> (Inl e, [SessionRun ChunkQuery q_vec])
      | Inr dump1 \<Rightarrow>
     (case session_run_triples db q_vec of
        Inl e \<Rightarrow> (Inl e, [SessionRun ChunkQuery q_vec, SessionRun TripleQuery q_vec])
      | Inr triple_res \<Rightarrow>
     (case facts_loop triple_res (dump1 @ [''\<newline>=== KNOWLEDGE GRAPH FACTS ===''], {}) of
        (dump2, seen_triples) \<Rightarrow>
          (Inr dump2,
           [SessionRun ChunkQuery q_vec, SessionRun TripleQuery q_vec,
            Print (debug_line (card seen_triples) query_text)])))))"

text \<open>
  The \<^verbatim>\<open>with\<close> statement: the session is closed when the block is left, also by an
  exception, which then goes on to the caller.
\<close>

definition with_session :: "graph_db \<Rightarrow> real list \<Rightarrow> string \<Rightarrow> (pyexn + string list) \<times> event list" where
  "with_session db q_vec query_text =
     (case session_fault db of
        Some e \<Rightarrow> (Inl e, [DriverSession])
      | None \<Rightarrow>
          (case session_body db q_vec query_text of
             (r, t) \<Rightarrow> (r, [DriverSession] @ t @ [SessionClose])))"

definition sys_prompt :: "string \<Rightarrow> string \<Rightarrow> string" where
  "sys_prompt full_context query_text =
     ''\<newline>    You are ARC (Analysis for Research Collaboration). \<newline>''
     @ ''    Answer the user's question based strictly on the provided evidence.\<newline>''
     @ ''    \<newline>''
     @ ''    EVIDENCE:\<newline>''
     @ ''    '' @ full_context @ ''\<newline>''
     @ ''    \<newline>''
     @ ''    QUESTION: '' @ query_text @ ''\<newline>''
     @ ''    ''"

text \<open>
  The result is what the function returns, the pair of answer and evidence, or the
  exception that leaves it.
\<close>

definition run_hybrid_query :: "services \<Rightarrow> string \<Rightarrow> (pyexn + string \<times> string) \<times> event list" where
  "run_hybrid_query sv query_text =
     (case embed_query sv query_text of
        Inl e \<Rightarrow>
          (Inr (''Embedding Error: '' @ exn_str e, []),
           [EmbedContent ''text-embedding-004'' query_text])
      | Inr q_vec \<Rightarrow>
     (case with_session (graph sv) q_vec query_text of
        (Inl e, t) \<Rightarrow> (Inl e, EmbedContent ''text-embedding-004'' query_text # t)
      | (Inr evidence_dump, t) \<Rightarrow>
          (let full_context = str_join ''\<newline>'' evidence_dump;
               prompt = sys_prompt full_context query_text;
               t' = EmbedContent ''text-embedding-004'' query_text # t
                      @ [GenerateContent ''gemini-3-flash-preview'' prompt]
           in case generate_content sv ''gemini-3-flash-preview'' prompt of
                Inl e \<Rightarrow> (Inl e, t')
              | Inr final_text \<Rightarrow> (Inr (final_text, full_context), t'))))"

subsection \<open>The chat loop\<close>

text \<open>
  One submission of the chat input against the session's history of (role, content)
  pairs: the history it leaves, the exception that ended the run if any, and the calls
  made. An empty input is falsy and does nothing.
\<close>

definition submit ::
  "services \<Rightarrow> (string \<times> string) list \<Rightarrow> string
     \<Rightarrow> (string \<times> string) list \<times> pyexn option \<times> event list" where
  "submit sv history user_in =
     (if user_in = [] then (history, None, [])
      else
        (let history1 = history @ [(''user'', user_in)] in
         case run_hybrid_query sv user_in of
           (Inl e, t) \<Rightarrow> (history1, Some e, t)
         | (Inr (ans, raw_ev), t) \<Rightarrow> (history1 @ [(''assistant'', ans)], None, t)))"

subsection \<open>The module's top level up to \<^verbatim>\<open>get_clients()\<close>\<close>



text \<open>
  The value of an environment variable as Python's \<^verbatim>\<open>or\<close> sees it: none when the
  variable is unset or empty.
\<close>

definition env_value :: "(string \<rightharpoonup> string) \<Rightarrow> string \<Rightarrow> string option" where
  "env_value env k = (case env k of Some v \<Rightarrow> if v \<noteq> [] then Some v else None | None \<Rightarrow> None)"



text \<open>
  Successive submissions in one session. The script runs once for each input and
  \<^verbatim>\<open>st.session_state.history\<close> is what one run leaves to the next: the history at the
  end, and the calls of each run.
\<close>

fun chat ::
  "services \<Rightarrow> (string \<times> string) list \<Rightarrow> string list
     \<Rightarrow> (string \<times> string) list \<times> event list list" where
  "chat sv history [] = (history, [])"
| "chat sv history (user_in # rest) =
     (case submit sv history user_in of
        (history', e, t) \<Rightarrow>
          (case chat sv history' rest of (history'', ts) \<Rightarrow> (history'', t # ts)))"

text \<open>
  Step 5 of the retriever in the specification's words: a fact line is appended for a
  row only if its composite key has not been seen before in this call. Of the keys of
  the rows, in order, those at a position where the key is neither in the set the
  call started from nor the key of an earlier row.
\<close>

definition new_keys :: "string set \<Rightarrow> string list \<Rightarrow> string list" where
  "new_keys seen keys =
     map (\<lambda>i. keys ! i)
       (filter (\<lambda>i. keys ! i \<notin> seen \<union> set (take i keys)) [0..<length keys])"

fun is_generate :: "event \<Rightarrow> bool" where
  "is_generate (GenerateContent m p) = True"
| "is_generate _ = False"

fun is_db_call :: "event \<Rightarrow> bool" where
  "is_db_call DriverSession = True"
| "is_db_call (SessionRun c v) = True"
| "is_db_call SessionClose = True"
| "is_db_call _ = False"

subsection \<open>A small knowledge base to run the functions on\<close>

text \<open>
  Two indexed chunks and four indexed entities. EGFR scores above the threshold and has
  three relationships, two of them the same triple with different evidence; KRAS scores
  exactly 0.72 and BRAF below it, and both have a relationship of their own.
\<close>

definition sample_props :: "nat \<Rightarrow> node_props" where
  "sample_props n =
     (if n = 0 then \<lparr>node_name = PNone, node_text = PStr ''Gefitinib is a selective EGFR tyrosine kinase inhibitor.''\<rparr>
      else if n = 1 then \<lparr>node_name = PNone, node_text = PStr ''Erlotinib blocks EGFR signalling in lung cancer.''\<rparr>
      else if n = 10 then \<lparr>node_name = PStr ''EGFR'', node_text = PNone\<rparr>
      else if n = 11 then \<lparr>node_name = PStr ''Gefitinib'', node_text = PNone\<rparr>
      else if n = 12 then \<lparr>node_name = PStr ''Erlotinib'', node_text = PNone\<rparr>
      else if n = 13 then \<lparr>node_name = PStr ''KRAS'', node_text = PNone\<rparr>
      else if n = 14 then \<lparr>node_name = PStr ''BRAF'', node_text = PNone\<rparr>
      else if n = 15 then \<lparr>node_name = PStr ''MEK'', node_text = PNone\<rparr>
      else \<lparr>node_name = PNone, node_text = PNone\<rparr>)"

definition sample_relationships :: "relationship list" where
  "sample_relationships =
     [\<lparr>rel_start = 11, rel_type = ''INHIBITS'', rel_end = 10, rel_evidence = PStr ''trial A''\<rparr>,
      \<lparr>rel_start = 11, rel_type = ''INHIBITS'', rel_end = 10, rel_evidence = PStr ''trial B''\<rparr>,
      \<lparr>rel_start = 12, rel_type = ''INHIBITS'', rel_end = 10, rel_evidence = PNone\<rparr>,
      \<lparr>rel_start = 13, rel_type = ''ACTIVATES'', rel_end = 15, rel_evidence = PNone\<rparr>,
      \<lparr>rel_start = 14, rel_type = ''ACTIVATES'', rel_end = 15, rel_evidence = PNone\<rparr>]"

definition sample_db :: graph_db where
  "sample_db =
     \<lparr>props = sample_props,
      relationships = sample_relationships,
      vector_index = (\<lambda>index vec.
         if index = ''paper_vectors'' then [(0, 0.88), (1, 0.81)]
         else if index = ''entity_vectors'' then [(10, 0.91), (13, 0.72), (14, 0.4)]
         else []),
      session_fault = None,
      run_fault = (\<lambda>c. None)\<rparr>"

definition sample_services :: services where
  "sample_services =
     \<lparr>embed_content = (\<lambda>model contents. Inr [ [0.1, 0.2, 0.3] ]),
      generate_content = (\<lambda>model contents. Inr ''Gefitinib and erlotinib inhibit EGFR.''),
      graph = sample_db\<rparr>"

definition sample_query :: string where
  "sample_query = ''What inhibits EGFR?''"

definition sample_evidence :: string where
  "sample_evidence =
     ''=== LITERATURE SNIPPETS ===\<newline>''
     @ ''- Gefitinib is a selective EGFR tyrosine kinase inhibitor....\<newline>''
     @ ''- Erlotinib blocks EGFR signalling in lung cancer....\<newline>''
     @ ''\<newline>=== KNOWLEDGE GRAPH FACTS ===\<newline>''
     @ ''FACT: EGFR -> INHIBITS -> Gefitinib\<newline>''
     @ ''FACT: EGFR -> INHIBITS -> Erlotinib''"

definition service_down :: pyexn where
  "service_down = PyExn ''ServiceUnavailable'' ''connection refused''"


text \<open>
  The same knowledge base with no chunk indexed and EGFR out of the entity index: no
  entity scores above the threshold.
\<close>

definition cold_db :: graph_db where
  "cold_db =
     sample_db\<lparr>vector_index := (\<lambda>index vec.
        if index = ''entity_vectors'' then [(13, 0.72), (14, 0.4)] else [])\<rparr>"

definition cold_services :: services where
  "cold_services = sample_services\<lparr>graph := cold_db\<rparr>"

definition cold_evidence :: string where
  "cold_evidence = ''=== LITERATURE SNIPPETS ===\<newline>\<newline>=== KNOWLEDGE GRAPH FACTS ===''"

text \<open>
  Services that fail, or answer otherwise: an embedding call that raises, one that
  answers with no embedding, and a generative model with another answer.
\<close>

definition embed_down_services :: services where
  "embed_down_services = sample_services\<lparr>embed_content := (\<lambda>model contents. Inl service_down)\<rparr>"

definition no_embedding_services :: services where
  "no_embedding_services = sample_services\<lparr>embed_content := (\<lambda>model contents. Inr [])\<rparr>"

definition other_answer_services :: services where
  "other_answer_services =
     sample_services\<lparr>generate_content := (\<lambda>model contents. Inr ''EGFR is inhibited by gefitinib.'')\<rparr>"

text \<open>
  A driver that gives no session, a database on which one of the two queries raises, an
  index that returns a node with no text, and a generative model that raises.
\<close>

definition session_down_services :: services where
  "session_down_services = sample_services\<lparr>graph := sample_db\<lparr>session_fault := Some service_down\<rparr>\<rparr>"

definition chunk_query_down_services :: services where
  "chunk_query_down_services =
     sample_services\<lparr>graph := sample_db\<lparr>run_fault :=
        (\<lambda>c. if c = ChunkQuery then Some service_down else None)\<rparr>\<rparr>"

definition triple_query_down_services :: services where
  "triple_query_down_services =
     sample_services\<lparr>graph := sample_db\<lparr>run_fault :=
        (\<lambda>c. if c = TripleQuery then Some service_down else None)\<rparr>\<rparr>"

definition null_text_services :: services where
  "null_text_services =
     sample_services\<lparr>graph := sample_db\<lparr>vector_index := (\<lambda>index vec.
        if index = ''paper_vectors'' then [(0, 0.88), (10, 0.5)] else [])\<rparr>\<rparr>"

definition gen_down_services :: services where
  "gen_down_services = sample_services\<lparr>generate_content := (\<lambda>model contents. Inl service_down)\<rparr>"

definition none_not_subscriptable :: pyexn where
  "none_not_subscriptable = PyExn ''TypeError'' '''NoneType' object is not subscriptable''"


subsection \<open>The lines of the evidence\<close>

abbreviation lit_header :: string where
  "lit_header \<equiv> ''=== LITERATURE SNIPPETS ===''"

abbreviation facts_header :: string where
  "facts_header \<equiv> ''\<newline>=== KNOWLEDGE GRAPH FACTS ===''"

abbreviation snippet_line :: "string \<Rightarrow> string" where
  "snippet_line x \<equiv> ''- '' @ take 300 x @ ''...''"

abbreviation fact_line :: "string \<Rightarrow> string" where
  "fact_line k \<equiv> ''FACT: '' @ k"

abbreviation embed_model :: string where
  "embed_model \<equiv> ''text-embedding-004''"

abbreviation gen_model :: string where
  "gen_model \<equiv> ''gemini-3-flash-preview''"

section \<open>Properties\<close>

subsection \<open>The credentials\<close>

lemma getenv_or_secret_found:
  "env_value env k = Some v \<Longrightarrow> getenv_or_secret store env k = (Inr v, env, [GetEnv k])"
  by (auto simp: env_value_def getenv_or_secret_def os_getenv_def split: option.splits if_splits)






lemma resolve_credentials_all_env:
  assumes "env_value env ''GOOGLE_API_KEY'' = Some key" "env_value env ''NEO4J_URI'' = Some uri"
    "env_value env ''NEO4J_USER'' = Some user" "env_value env ''NEO4J_PASSWORD'' = Some password"
  shows "resolve_credentials env store
     = (Resolved \<lparr>api_key = key, neo_uri = uri, neo_auth = (user, password)\<rparr>,
        [GetEnv ''GOOGLE_API_KEY'', GetEnv ''NEO4J_URI'', GetEnv ''NEO4J_USER'',
         GetEnv ''NEO4J_PASSWORD''])"
  using assms by (simp add: resolve_credentials_def getenv_or_secret_found)




subsection \<open>The iterations and the queries\<close>

lemma str_join_append:
  "xs \<noteq> [] \<Longrightarrow> ys \<noteq> [] \<Longrightarrow> str_join sep (xs @ ys) = str_join sep xs @ sep @ str_join sep ys"
proof (induction sep xs rule: str_join.induct)
  case (1 sep)
  then show ?case by simp
next
  case (2 sep x)
  then show ?case by (cases ys) simp_all
next
  case (3 sep x y zs)
  then show ?case by simp
qed

lemma literature_loop_ok:
  "map row_text rows = map PStr texts \<Longrightarrow>
     literature_loop rows dump = Inr (dump @ map (\<lambda>x. ''- '' @ take 300 x @ ''...'') texts)"
proof (induction rows arbitrary: texts dump)
  case Nil
  then show ?case by simp
next
  case (Cons r rows)
  from Cons.prems obtain x xs where t: "texts = x # xs" "row_text r = PStr x"
    "map row_text rows = map PStr xs" by (cases texts) auto
  show ?case using Cons.IH [OF t(3)] t(1,2) by simp
qed

lemma literature_loop_texts:
  "literature_loop rows dump = Inr dump' \<Longrightarrow>
     \<exists>texts. map row_text rows = map PStr texts
        \<and> dump' = dump @ map (\<lambda>x. ''- '' @ take 300 x @ ''...'') texts"
proof (induction rows arbitrary: dump)
  case Nil
  then show ?case by simp
next
  case (Cons r rows)
  show ?case
  proof (cases "row_text r")
    case PNone
    with Cons.prems show ?thesis by simp
  next
    case (PStr x)
    with Cons.prems have "literature_loop rows (dump @ [''- '' @ take 300 x @ ''...'']) = Inr dump'"
      by simp
    from Cons.IH [OF this] obtain xs where
      xs: "map row_text rows = map PStr xs"
          "dump' = (dump @ [''- '' @ take 300 x @ ''...'']) @ map (\<lambda>x. ''- '' @ take 300 x @ ''...'') xs"
      by blast
    have "map row_text (r # rows) = map PStr (x # xs)" using PStr xs(1) by simp
    moreover have "dump' = dump @ map (\<lambda>x. ''- '' @ take 300 x @ ''...'') (x # xs)"
      using xs(2) by simp
    ultimately show ?thesis by blast
  qed
qed

lemma literature_loop_Inl:
  "literature_loop rows dump = Inl e \<Longrightarrow>
     e = PyExn ''TypeError'' '''NoneType' object is not subscriptable'' \<and> PNone \<in> row_text ` set rows"
proof (induction rows arbitrary: dump)
  case Nil
  then show ?case by simp
next
  case (Cons r rows)
  then show ?case by (cases "row_text r") (auto split: sum.splits)
qed

lemma facts_loop_shape:
  "\<exists>keys. facts_loop rows (dump, seen) = (dump @ map (\<lambda>k. ''FACT: '' @ k) keys, seen \<union> set keys)
      \<and> distinct keys \<and> set keys = triple_of ` set rows - seen"
proof (induction rows arbitrary: dump seen)
  case Nil
  show ?case by simp
next
  case (Cons r rows)
  show ?case
  proof (cases "triple_of r \<in> seen")
    case True
    from Cons.IH [of dump seen] obtain keys where
      k: "facts_loop rows (dump, seen) = (dump @ map (\<lambda>k. ''FACT: '' @ k) keys, seen \<union> set keys)"
         "distinct keys" "set keys = triple_of ` set rows - seen" by blast
    with True show ?thesis by auto
  next
    case False
    from Cons.IH [of "dump @ [''FACT: '' @ triple_of r]" "insert (triple_of r) seen"] obtain keys where
      k: "facts_loop rows (dump @ [''FACT: '' @ triple_of r], insert (triple_of r) seen)
            = ((dump @ [''FACT: '' @ triple_of r]) @ map (\<lambda>k. ''FACT: '' @ k) keys, insert (triple_of r) seen \<union> set keys)"
         "distinct keys" "set keys = triple_of ` set rows - insert (triple_of r) seen" by blast
    have "facts_loop (r # rows) (dump, seen)
            = (dump @ map (\<lambda>k. ''FACT: '' @ k) (triple_of r # keys), seen \<union> set (triple_of r # keys))"
      using False k(1) by (simp add: Let_def)
    moreover have "distinct (triple_of r # keys)" using k(2,3) by auto
    moreover have "set (triple_of r # keys) = triple_of ` set (r # rows) - seen"
      using k(3) False by auto
    ultimately show ?thesis by blast
  qed
qed

lemma facts_loop_ev:
  "facts_loop (map (\<lambda>r. r\<lparr>row_ev := f r\<rparr>) rows) st = facts_loop rows st"
proof (induction rows arbitrary: st)
  case Nil
  show ?case by simp
next
  case (Cons r rows)
  obtain dump seen where st: "st = (dump, seen)" by (cases st)
  have "triple_of (r\<lparr>row_ev := f r\<rparr>) = triple_of r" by (simp add: triple_of_def)
  then show ?case using Cons.IH by (simp add: st Let_def)
qed

lemma length_chunk_query: "length (chunk_query db vec) \<le> 5"
  by (simp add: chunk_query_def queryNodes_def)

lemma length_triple_query: "length (triple_query db vec) \<le> 15"
  by (simp add: triple_query_def)

lemma triple_query_anchor:
  assumes "row \<in> set (triple_query db vec)"
  shows "\<exists>start score. (start, score) \<in> set (queryNodes db ''entity_vectors'' 5 vec)
           \<and> score > 0.72 \<and> row \<in> set (expand db start)"
proof -
  from assms have "row \<in> set (concat (map (\<lambda>(start, score). expand db start) (anchors db vec)))"
    unfolding triple_query_def by (rule in_set_takeD)
  then show ?thesis by (auto simp: anchors_def)
qed

subsection \<open>The session and the whole run\<close>

lemma with_session_ok:
  assumes "session_fault db = None" "run_fault db ChunkQuery = None"
    "run_fault db TripleQuery = None" "map row_text (chunk_query db vec) = map PStr texts"
  shows "with_session db vec q =
     (Inr (fst (facts_loop (triple_query db vec) (lit_header # map snippet_line texts @ [facts_header], {}))),
      [DriverSession, SessionRun ChunkQuery vec, SessionRun TripleQuery vec,
       Print (debug_line (card (snd (facts_loop (triple_query db vec)
          (lit_header # map snippet_line texts @ [facts_header], {})))) q),
       SessionClose])"
  using assms literature_loop_ok [OF assms(4), of "[lit_header]"]
  by (simp add: with_session_def session_body_def session_run_chunks_def session_run_triples_def
      split: prod.splits)

lemma with_session_Inr:
  assumes "with_session db vec q = (Inr dump, t)"
  shows "session_fault db = None \<and> run_fault db ChunkQuery = None \<and> run_fault db TripleQuery = None
     \<and> (\<exists>texts. map row_text (chunk_query db vec) = map PStr texts)"
proof -
  have f: "session_fault db = None" "run_fault db ChunkQuery = None" "run_fault db TripleQuery = None"
    using assms
    by (auto simp: with_session_def session_body_def session_run_chunks_def session_run_triples_def
        split: option.splits sum.splits prod.splits)
  obtain d where "literature_loop (chunk_query db vec) [lit_header] = Inr d"
    using assms f
    by (auto simp: with_session_def session_body_def session_run_chunks_def session_run_triples_def
        split: option.splits sum.splits prod.splits)
  from literature_loop_texts [OF this] f show ?thesis by blast
qed

lemma with_session_shape:
  assumes "with_session db vec q = (Inr dump, t)"
  shows "\<exists>texts keys. map row_text (chunk_query db vec) = map PStr texts
     \<and> dump = lit_header # map snippet_line texts @ facts_header # map fact_line keys
     \<and> distinct keys \<and> set keys = triple_of ` set (triple_query db vec)
     \<and> t = [DriverSession, SessionRun ChunkQuery vec, SessionRun TripleQuery vec,
            Print (debug_line (length keys) q), SessionClose]"
proof -
  from with_session_Inr [OF assms] obtain texts where
    f: "session_fault db = None" "run_fault db ChunkQuery = None" "run_fault db TripleQuery = None"
       "map row_text (chunk_query db vec) = map PStr texts" by blast
  from facts_loop_shape [of "triple_query db vec" "lit_header # map snippet_line texts @ [facts_header]" "{}"]
  obtain keys where
    k: "facts_loop (triple_query db vec) (lit_header # map snippet_line texts @ [facts_header], {})
          = ((lit_header # map snippet_line texts @ [facts_header]) @ map fact_line keys, {} \<union> set keys)"
       "distinct keys" "set keys = triple_of ` set (triple_query db vec) - {}" by blast
  have c: "card (set keys) = length keys" using k(2) by (rule distinct_card)
  have d: "dump = lit_header # map snippet_line texts @ facts_header # map fact_line keys"
    using with_session_ok [OF f, of q] assms k(1) by simp
  have e: "t = [DriverSession, SessionRun ChunkQuery vec, SessionRun TripleQuery vec,
            Print (debug_line (length keys) q), SessionClose]"
    using with_session_ok [OF f, of q] assms k(1) c by simp
  have s: "set keys = triple_of ` set (triple_query db vec)" using k(3) by simp
  from f(4) d k(2) s e show ?thesis by blast
qed

lemma run_hybrid_query_Inr:
  assumes "embed_query sv q = Inr vec" "run_hybrid_query sv q = (Inr (ans, ev), t)"
  shows "\<exists>dump t0. with_session (graph sv) vec q = (Inr dump, t0)
     \<and> ev = str_join ''\<newline>'' dump
     \<and> generate_content sv gen_model (sys_prompt ev q) = Inr ans
     \<and> t = EmbedContent embed_model q # t0 @ [GenerateContent gen_model (sys_prompt ev q)]"
  using assms
  by (auto simp: run_hybrid_query_def Let_def split: sum.splits prod.splits)

lemma run_hybrid_query_ok:
  assumes "embed_query sv q = Inr vec" "with_session (graph sv) vec q = (Inr dump, t0)"
  shows "run_hybrid_query sv q =
     (case generate_content sv gen_model (sys_prompt (str_join ''\<newline>'' dump) q) of
        Inl e \<Rightarrow> Inl e | Inr a \<Rightarrow> Inr (a, str_join ''\<newline>'' dump),
      EmbedContent embed_model q # t0 @ [GenerateContent gen_model (sys_prompt (str_join ''\<newline>'' dump) q)])"
  using assms
  by (simp add: run_hybrid_query_def Let_def split: sum.splits)

lemma map_PStr_inj: "map PStr a = map PStr b \<Longrightarrow> a = b"
proof -
  have "inj PStr" by (simp add: inj_def)
  then show "map PStr a = map PStr b \<Longrightarrow> a = b" by (simp add: inj_map_eq_map)
qed

lemma evidence_split:
  assumes "embed_query sv q = Inr vec"
    and "run_hybrid_query sv q = (Inr (ans, ev), t)"
  shows "\<exists>texts keys.
      map row_text (chunk_query (graph sv) vec) = map PStr texts
    \<and> set keys = triple_of ` set (triple_query (graph sv) vec) \<and> distinct keys
    \<and> ev = str_join ''\<newline>'' (lit_header # map snippet_line texts)
           @ ''\<newline>'' @ str_join ''\<newline>'' (facts_header # map fact_line keys)
    \<and> generate_content sv gen_model (sys_prompt ev q) = Inr ans
    \<and> t = [EmbedContent embed_model q, DriverSession, SessionRun ChunkQuery vec,
            SessionRun TripleQuery vec, Print (debug_line (length keys) q), SessionClose,
            GenerateContent gen_model (sys_prompt ev q)]"
proof -
  from run_hybrid_query_Inr [OF assms] obtain dump t0 where
    w: "with_session (graph sv) vec q = (Inr dump, t0)" and ev: "ev = str_join ''\<newline>'' dump"
    and g: "generate_content sv gen_model (sys_prompt ev q) = Inr ans"
    and t: "t = EmbedContent embed_model q # t0 @ [GenerateContent gen_model (sys_prompt ev q)]"
    by blast
  from with_session_shape [OF w] obtain texts keys where
    s: "map row_text (chunk_query (graph sv) vec) = map PStr texts"
       "dump = lit_header # map snippet_line texts @ facts_header # map fact_line keys"
       "distinct keys" "set keys = triple_of ` set (triple_query (graph sv) vec)"
       "t0 = [DriverSession, SessionRun ChunkQuery vec, SessionRun TripleQuery vec,
            Print (debug_line (length keys) q), SessionClose]"
    by blast
  have "dump = (lit_header # map snippet_line texts) @ (facts_header # map fact_line keys)"
    using s(2) by simp
  then have e: "ev = str_join ''\<newline>'' (lit_header # map snippet_line texts)
           @ ''\<newline>'' @ str_join ''\<newline>'' (facts_header # map fact_line keys)"
    using ev str_join_append [of "lit_header # map snippet_line texts" "facts_header # map fact_line keys" "''\<newline>''"]
    by simp
  have t': "t = [EmbedContent embed_model q, DriverSession, SessionRun ChunkQuery vec,
            SessionRun TripleQuery vec, Print (debug_line (length keys) q), SessionClose,
            GenerateContent gen_model (sys_prompt ev q)]"
    using t s(5) by simp
  from s(1,3,4) e g t' show ?thesis by blast
qed

lemma with_session_trace_no_generate:
  "filter is_generate (snd (with_session db vec q)) = []"
  by (simp add: with_session_def session_body_def split: option.splits sum.splits prod.splits)

lemma with_session_Inl_run:
  assumes "embed_query sv q = Inr vec" and "with_session (graph sv) vec q = (Inl e, t0)"
  shows "run_hybrid_query sv q = (Inl e, EmbedContent embed_model q # t0)"
  using assms by (simp add: run_hybrid_query_def)

lemma literature_loop_PNone:
  "PNone \<in> row_text ` set rows \<Longrightarrow> literature_loop rows dump = Inl none_not_subscriptable"
proof (induction rows arbitrary: dump)
  case Nil
  then show ?case by simp
next
  case (Cons r rows)
  show ?case
  proof (cases "row_text r")
    case PNone
    then show ?thesis by (simp add: none_not_subscriptable_def)
  next
    case (PStr x)
    with Cons.prems have "PNone \<in> row_text ` set rows" by auto
    from Cons.IH [OF this] PStr show ?thesis by simp
  qed
qed

lemma new_keys_Nil: "new_keys seen [] = []"
  by (simp add: new_keys_def)

lemma new_keys_Cons:
  "new_keys seen (k # ks) = (if k \<notin> seen then [k] else []) @ new_keys (insert k seen) ks"
proof -
  let ?P = "\<lambda>i. (k # ks) ! i \<notin> seen \<union> set (take i (k # ks))"
  let ?Q = "\<lambda>i. ks ! i \<notin> insert k seen \<union> set (take i ks)"
  have u: "[0..<length (k # ks)] = 0 # map Suc [0..<length ks]"
    by (simp add: upt_conv_Cons map_Suc_upt del: upt_Suc)
  have f: "filter ?P (map Suc xs) = map Suc (filter ?Q xs)" for xs
    by (induction xs) simp_all
  have m: "map (\<lambda>i. (k # ks) ! i) (map Suc ys) = map (\<lambda>i. ks ! i) ys" for ys
    by simp
  have "new_keys seen (k # ks) = map (\<lambda>i. (k # ks) ! i) (filter ?P (0 # map Suc [0..<length ks]))"
    by (simp only: new_keys_def u)
  also have "\<dots> = (if k \<notin> seen then [k] else [])
      @ map (\<lambda>i. (k # ks) ! i) (filter ?P (map Suc [0..<length ks]))"
    by simp
  also have "\<dots> = (if k \<notin> seen then [k] else []) @ map (\<lambda>i. ks ! i) (filter ?Q [0..<length ks])"
    by (simp only: f m)
  also have "\<dots> = (if k \<notin> seen then [k] else []) @ new_keys (insert k seen) ks"
    by (simp only: new_keys_def)
  finally show ?thesis .
qed

lemma facts_loop_new_keys:
  "facts_loop rows (dump, seen)
     = (dump @ map fact_line (new_keys seen (map triple_of rows)), seen \<union> triple_of ` set rows)"
proof (induction rows arbitrary: dump seen)
  case Nil
  show ?case by (simp add: new_keys_Nil)
next
  case (Cons r rows)
  show ?case
  proof (cases "triple_of r \<in> seen")
    case True
    then have "insert (triple_of r) seen = seen" by auto
    with True show ?thesis using Cons.IH [of dump seen] by (simp add: new_keys_Cons insert_absorb)
  next
    case False
    then show ?thesis
      using Cons.IH [of "dump @ [fact_line (triple_of r)]" "insert (triple_of r) seen"]
      by (simp add: new_keys_Cons Let_def)
  qed
qed

lemma submit_events:
  "snd (snd (submit sv history q)) = (if q = [] then [] else snd (run_hybrid_query sv q))"
  by (simp add: submit_def Let_def split: prod.splits sum.splits)

lemma chat_twice:
  "snd (chat sv history [q, q])
     = (if q = [] then [ [], [] ] else [snd (run_hybrid_query sv q), snd (run_hybrid_query sv q)])"
proof -
  obtain h1 e1 t1 where s1: "submit sv history q = (h1, e1, t1)" by (cases "submit sv history q")
  obtain h2 e2 t2 where s2: "submit sv h1 q = (h2, e2, t2)" by (cases "submit sv h1 q")
  have "t1 = (if q = [] then [] else snd (run_hybrid_query sv q))"
    using submit_events [of sv history q] s1 by simp
  moreover have "t2 = (if q = [] then [] else snd (run_hybrid_query sv q))"
    using submit_events [of sv h1 q] s2 by simp
  ultimately show ?thesis by (simp add: s1 s2)
qed

subsection \<open>The run on the small knowledge base\<close>

lemma sample_embed: "embed_query sample_services q = Inr [0.1, 0.2, 0.3]"
  by (simp add: embed_query_def sample_services_def)

lemma sample_chunks:
  "chunk_query sample_db v =
     [\<lparr>row_text = PStr ''Gefitinib is a selective EGFR tyrosine kinase inhibitor.'', row_score = 0.88\<rparr>,
      \<lparr>row_text = PStr ''Erlotinib blocks EGFR signalling in lung cancer.'', row_score = 0.81\<rparr>]"
  by (simp add: chunk_query_def queryNodes_def sample_db_def sample_props_def)

lemma sample_triples:
  "triple_query sample_db v =
     [\<lparr>row_s = PStr ''EGFR'', row_rel = ''INHIBITS'', row_t = PStr ''Gefitinib'', row_ev = PStr ''trial A''\<rparr>,
      \<lparr>row_s = PStr ''EGFR'', row_rel = ''INHIBITS'', row_t = PStr ''Gefitinib'', row_ev = PStr ''trial B''\<rparr>,
      \<lparr>row_s = PStr ''EGFR'', row_rel = ''INHIBITS'', row_t = PStr ''Erlotinib'', row_ev = PNone\<rparr>]"
  by (simp add: triple_query_def anchors_def queryNodes_def sample_db_def sample_props_def
      expand_def match_hop_def sample_relationships_def)

lemma sample_db_faults:
  "session_fault sample_db = None" "run_fault sample_db c = None"
  by (simp_all add: sample_db_def)

lemma str_nat_2: "str_nat (Suc (Suc 0)) = ''2''"
proof -
  have "str_nat 2 = ''2''" by code_simp
  then show ?thesis by (simp add: numeral_2_eq_2)
qed

lemma sample_session:
  "with_session sample_db v q =
     (Inr [lit_header,
           ''- Gefitinib is a selective EGFR tyrosine kinase inhibitor....'',
           ''- Erlotinib blocks EGFR signalling in lung cancer....'',
           facts_header,
           ''FACT: EGFR -> INHIBITS -> Gefitinib'',
           ''FACT: EGFR -> INHIBITS -> Erlotinib''],
      [DriverSession, SessionRun ChunkQuery v, SessionRun TripleQuery v,
       Print (''DEBUG: Found 2 unique graph facts for query: '' @ [CHR 0x27] @ q @ [CHR 0x27]),
       SessionClose])"
  by (simp add: with_session_def session_body_def session_run_chunks_def session_run_triples_def
      sample_db_faults sample_chunks sample_triples triple_of_def debug_line_def str_nat_2 Let_def)

lemma sample_run:
  "run_hybrid_query sample_services sample_query =
     (Inr (''Gefitinib and erlotinib inhibit EGFR.'', sample_evidence),
      [EmbedContent embed_model sample_query, DriverSession,
       SessionRun ChunkQuery [0.1, 0.2, 0.3], SessionRun TripleQuery [0.1, 0.2, 0.3],
       Print (''DEBUG: Found 2 unique graph facts for query: '' @ [CHR 0x27] @ sample_query @ [CHR 0x27]),
       SessionClose,
       GenerateContent gen_model (sys_prompt sample_evidence sample_query)])"
proof -
  have g: "graph sample_services = sample_db" by (simp add: sample_services_def)
  have j: "str_join ''\<newline>'' [lit_header,
           ''- Gefitinib is a selective EGFR tyrosine kinase inhibitor....'',
           ''- Erlotinib blocks EGFR signalling in lung cancer....'',
           facts_header,
           ''FACT: EGFR -> INHIBITS -> Gefitinib'',
           ''FACT: EGFR -> INHIBITS -> Erlotinib''] = sample_evidence"
    by (simp add: sample_evidence_def)
  have gen: "generate_content sample_services m p = Inr ''Gefitinib and erlotinib inhibit EGFR.''" for m p
    by (simp add: sample_services_def)
  show ?thesis
    unfolding run_hybrid_query_ok [OF sample_embed, of sample_query, unfolded g, OF sample_session] j gen
    by simp
qed

lemma cold_embed: "embed_query cold_services q = Inr [0.1, 0.2, 0.3]"
  by (simp add: embed_query_def cold_services_def sample_services_def)

lemma cold_chunks: "chunk_query cold_db v = []"
  by (simp add: chunk_query_def queryNodes_def cold_db_def sample_db_def)

lemma cold_index:
  "queryNodes cold_db ''entity_vectors'' 5 v = [(13, 0.72), (14, 0.4)]"
  by (simp add: queryNodes_def cold_db_def sample_db_def)

lemma cold_triples: "triple_query cold_db v = []"
  by (simp add: triple_query_def anchors_def cold_index)

lemma cold_expand:
  "expand cold_db 13 = [\<lparr>row_s = PStr ''KRAS'', row_rel = ''ACTIVATES'', row_t = PStr ''MEK'', row_ev = PNone\<rparr>]"
  by (simp add: expand_def match_hop_def cold_db_def sample_db_def sample_relationships_def sample_props_def)

lemma str_nat_0: "str_nat 0 = ''0''"
  by code_simp

lemma cold_session:
  "with_session cold_db v q =
     (Inr [lit_header, facts_header],
      [DriverSession, SessionRun ChunkQuery v, SessionRun TripleQuery v,
       Print (''DEBUG: Found 0 unique graph facts for query: '' @ [CHR 0x27] @ q @ [CHR 0x27]),
       SessionClose])"
proof -
  have f: "session_fault cold_db = None" "run_fault cold_db c = None" for c
    by (simp_all add: cold_db_def sample_db_def)
  show ?thesis
    by (simp add: with_session_def session_body_def session_run_chunks_def session_run_triples_def
      f cold_chunks cold_triples debug_line_def str_nat_0)
qed

lemma cold_run:
  "run_hybrid_query cold_services sample_query =
     (Inr (''Gefitinib and erlotinib inhibit EGFR.'', cold_evidence),
      [EmbedContent embed_model sample_query, DriverSession,
       SessionRun ChunkQuery [0.1, 0.2, 0.3], SessionRun TripleQuery [0.1, 0.2, 0.3],
       Print (''DEBUG: Found 0 unique graph facts for query: '' @ [CHR 0x27] @ sample_query @ [CHR 0x27]),
       SessionClose,
       GenerateContent gen_model (sys_prompt cold_evidence sample_query)])"
proof -
  have g: "graph cold_services = cold_db" by (simp add: cold_services_def)
  have j: "str_join ''\<newline>'' [lit_header, facts_header] = cold_evidence"
    by (simp add: cold_evidence_def)
  have gen: "generate_content cold_services m p = Inr ''Gefitinib and erlotinib inhibit EGFR.''" for m p
    by (simp add: cold_services_def sample_services_def)
  show ?thesis
    unfolding run_hybrid_query_ok [OF cold_embed, of sample_query, unfolded g, OF cold_session] j gen
    by simp
qed

lemma other_answer_run:
  "fst (run_hybrid_query other_answer_services sample_query)
     = Inr (''EGFR is inhibited by gefitinib.'', sample_evidence)"
proof -
  have g: "graph other_answer_services = sample_db"
    by (simp add: other_answer_services_def sample_services_def)
  have em: "embed_query other_answer_services q = Inr [0.1, 0.2, 0.3]" for q
    by (simp add: embed_query_def other_answer_services_def sample_services_def)
  have j: "str_join ''\<newline>'' [lit_header,
           ''- Gefitinib is a selective EGFR tyrosine kinase inhibitor....'',
           ''- Erlotinib blocks EGFR signalling in lung cancer....'',
           facts_header,
           ''FACT: EGFR -> INHIBITS -> Gefitinib'',
           ''FACT: EGFR -> INHIBITS -> Erlotinib''] = sample_evidence"
    by (simp add: sample_evidence_def)
  have gen: "generate_content other_answer_services m p = Inr ''EGFR is inhibited by gefitinib.''" for m p
    by (simp add: other_answer_services_def)
  show ?thesis
    unfolding run_hybrid_query_ok [OF em, of sample_query, unfolded g, OF sample_session] j gen
    by simp
qed


section \<open>The claims\<close>

text \<open>
  In the theorems on \<^verbatim>\<open>run_hybrid_query\<close>, \<open>embed_query sv q = Inr vec\<close> says that
  the embedding step gave the vector \<open>vec\<close>, and
  \<open>run_hybrid_query sv q = (Inr (ans, ev), t)\<close> that the function returned the answer
  \<open>ans\<close> and the evidence \<open>ev\<close> after the calls \<open>t\<close>.
\<close>

text \<open>
  C1. The second query returns at most 15 rows. In the evidence of a run that returned,
  the lines after the facts header are one \<open>FACT: \<close> line for each composite string
  \<open>s -> rel -> t\<close> among those rows and no two of them are the same, so there are at most
  15. The key is the composite string alone: replacing the evidence field of the rows
  by anything leaves the loop's result as it is.
\<close>

theorem facts_section_bounded_and_deduplicated:
  assumes "embed_query sv q = Inr vec"
    and "run_hybrid_query sv q = (Inr (ans, ev), t)"
  shows "\<exists>texts keys.
      length (triple_query (graph sv) vec) \<le> 15
    \<and> ev = str_join ''\<newline>'' (lit_header # map snippet_line texts)
           @ ''\<newline>'' @ str_join ''\<newline>'' (facts_header # map fact_line keys)
    \<and> map row_text (chunk_query (graph sv) vec) = map PStr texts
    \<and> set keys = triple_of ` set (triple_query (graph sv) vec)
    \<and> distinct keys \<and> distinct (map fact_line keys) \<and> length keys \<le> 15
    \<and> (\<forall>f st. facts_loop (map (\<lambda>r. r\<lparr>row_ev := f r\<rparr>) (triple_query (graph sv) vec)) st
               = facts_loop (triple_query (graph sv) vec) st)"
proof -
  from run_hybrid_query_Inr [OF assms] obtain dump t0 where
    w: "with_session (graph sv) vec q = (Inr dump, t0)" and ev: "ev = str_join ''\<newline>'' dump"
    by blast
  from with_session_shape [OF w] obtain texts keys where
    s: "map row_text (chunk_query (graph sv) vec) = map PStr texts"
       "dump = lit_header # map snippet_line texts @ facts_header # map fact_line keys"
       "distinct keys" "set keys = triple_of ` set (triple_query (graph sv) vec)"
    by blast
  have "dump = (lit_header # map snippet_line texts) @ (facts_header # map fact_line keys)"
    using s(2) by simp
  then have e: "ev = str_join ''\<newline>'' (lit_header # map snippet_line texts)
           @ ''\<newline>'' @ str_join ''\<newline>'' (facts_header # map fact_line keys)"
    using ev str_join_append [of "lit_header # map snippet_line texts" "facts_header # map fact_line keys" "''\<newline>''"]
    by simp
  have "length keys = card (set keys)" using s(3) by (simp add: distinct_card)
  also have "\<dots> \<le> card (set (triple_query (graph sv) vec))"
    unfolding s(4) by (rule card_image_le) simp
  also have "\<dots> \<le> length (triple_query (graph sv) vec)" by (rule card_length)
  also have "\<dots> \<le> 15" by (rule length_triple_query)
  finally have l: "length keys \<le> 15" .
  have d: "distinct (map fact_line keys)" using s(3) by (simp add: distinct_map inj_on_def)
  show ?thesis
    using length_triple_query [of "graph sv" vec] e s(1,3,4) d l facts_loop_ev by blast
qed

text \<open>
  On the small knowledge base the query returns three rows, two with the same triple and
  different evidence, and the evidence has two fact lines.
\<close>

theorem facts_section_bounded_and_deduplicated_witness:
  "embed_query sample_services sample_query = Inr [0.1, 0.2, 0.3]
   \<and> fst (run_hybrid_query sample_services sample_query)
        = Inr (''Gefitinib and erlotinib inhibit EGFR.'', sample_evidence)
   \<and> length (triple_query sample_db [0.1, 0.2, 0.3]) = 3
   \<and> (\<exists>texts keys.
        sample_evidence = str_join ''\<newline>'' (lit_header # map snippet_line texts)
           @ ''\<newline>'' @ str_join ''\<newline>'' (facts_header # map fact_line keys)
      \<and> set keys = {''EGFR -> INHIBITS -> Gefitinib'', ''EGFR -> INHIBITS -> Erlotinib''}
      \<and> distinct keys)"
proof -
  have g: "graph sample_services = sample_db" by (simp add: sample_services_def)
  from facts_section_bounded_and_deduplicated [OF sample_embed sample_run]
  obtain texts keys where
    k: "sample_evidence = str_join ''\<newline>'' (lit_header # map snippet_line texts)
           @ ''\<newline>'' @ str_join ''\<newline>'' (facts_header # map fact_line keys)"
       "set keys = triple_of ` set (triple_query (graph sample_services) [0.1, 0.2, 0.3])"
       "distinct keys"
    by blast
  have "set keys = {''EGFR -> INHIBITS -> Gefitinib'', ''EGFR -> INHIBITS -> Erlotinib''}"
    unfolding k(2) g sample_triples by (simp add: triple_of_def)
  with k(1,3) show ?thesis
    by (simp add: sample_embed sample_run sample_triples) blast
qed

text \<open>
  C2. The first query returns at most 5 rows. In the evidence of a run that returned, the
  lines between the two headers are one for each row, in the rows' order and with
  nothing left out: the two characters \<open>- \<close>, the first 300 characters of the row's text
  (all of it when it is shorter) and three dots.
\<close>

theorem literature_section_bounded_and_truncated:
  assumes "embed_query sv q = Inr vec"
    and "run_hybrid_query sv q = (Inr (ans, ev), t)"
  shows "\<exists>texts facts.
      map row_text (chunk_query (graph sv) vec) = map PStr texts
    \<and> ev = str_join ''\<newline>'' (lit_header # map snippet_line texts)
           @ ''\<newline>'' @ str_join ''\<newline>'' (facts_header # facts)
    \<and> length (map snippet_line texts) = length (chunk_query (graph sv) vec)
    \<and> length (map snippet_line texts) \<le> 5
    \<and> (\<forall>x. snippet_line x = ''- '' @ take 300 x @ ''...'' \<and> length (take 300 x) \<le> 300)"
proof -
  from evidence_split [OF assms] obtain texts keys where
    s: "map row_text (chunk_query (graph sv) vec) = map PStr texts"
       "ev = str_join ''\<newline>'' (lit_header # map snippet_line texts)
           @ ''\<newline>'' @ str_join ''\<newline>'' (facts_header # map fact_line keys)"
    by blast
  have "length (chunk_query (graph sv) vec) = length texts"
    using arg_cong [OF s(1), of length] by simp
  then have l: "length (map snippet_line texts) = length (chunk_query (graph sv) vec)" by simp
  have "length (map snippet_line texts) \<le> 5"
    unfolding l by (rule length_chunk_query)
  with s l show ?thesis by auto
qed

text \<open>On the small knowledge base both chunks give a line.\<close>

theorem literature_section_bounded_and_truncated_witness:
  "embed_query sample_services sample_query = Inr [0.1, 0.2, 0.3]
   \<and> fst (run_hybrid_query sample_services sample_query)
        = Inr (''Gefitinib and erlotinib inhibit EGFR.'', sample_evidence)
   \<and> length (chunk_query sample_db [0.1, 0.2, 0.3]) = 2
   \<and> (\<exists>texts facts.
        sample_evidence = str_join ''\<newline>'' (lit_header # map snippet_line texts)
           @ ''\<newline>'' @ str_join ''\<newline>'' (facts_header # facts)
      \<and> texts = [''Gefitinib is a selective EGFR tyrosine kinase inhibitor.'',
                  ''Erlotinib blocks EGFR signalling in lung cancer.''])"
proof -
  have g: "graph sample_services = sample_db" by (simp add: sample_services_def)
  from literature_section_bounded_and_truncated [OF sample_embed sample_run]
  obtain texts facts where
    k: "map row_text (chunk_query (graph sample_services) [0.1, 0.2, 0.3]) = map PStr texts"
       "sample_evidence = str_join ''\<newline>'' (lit_header # map snippet_line texts)
           @ ''\<newline>'' @ str_join ''\<newline>'' (facts_header # facts)"
    by blast
  have "map PStr texts = map PStr [''Gefitinib is a selective EGFR tyrosine kinase inhibitor.'',
                  ''Erlotinib blocks EGFR signalling in lung cancer.'']"
    using k(1) unfolding g sample_chunks by simp
  then have "texts = [''Gefitinib is a selective EGFR tyrosine kinase inhibitor.'',
                  ''Erlotinib blocks EGFR signalling in lung cancer.'']"
    by (rule map_PStr_inj)
  with k(2) show ?thesis
    by (simp add: sample_embed sample_run sample_chunks) blast
qed

text \<open>
  C3. In the evidence of a run that returned, every fact line is the triple of a row got
  by expanding an entity that the index returned with a score above 0.72; when every
  entity returned scores 0.72 or less, there is no fact line. The comparison is strict:
  a score of exactly 0.72 does not pass.
\<close>

theorem low_score_entities_not_expanded:
  assumes "embed_query sv q = Inr vec"
    and "run_hybrid_query sv q = (Inr (ans, ev), t)"
  shows "\<exists>texts keys.
      ev = str_join ''\<newline>'' (lit_header # map snippet_line texts)
           @ ''\<newline>'' @ str_join ''\<newline>'' (facts_header # map fact_line keys)
    \<and> (\<forall>k \<in> set keys. \<exists>start score row.
          (start, score) \<in> set (queryNodes (graph sv) ''entity_vectors'' 5 vec)
          \<and> score > 0.72 \<and> row \<in> set (expand (graph sv) start) \<and> k = triple_of row)
    \<and> ((\<forall>(start, score) \<in> set (queryNodes (graph sv) ''entity_vectors'' 5 vec). score \<le> 0.72)
          \<longrightarrow> keys = [])"
proof -
  from evidence_split [OF assms] obtain texts keys where
    s: "set keys = triple_of ` set (triple_query (graph sv) vec)"
       "ev = str_join ''\<newline>'' (lit_header # map snippet_line texts)
           @ ''\<newline>'' @ str_join ''\<newline>'' (facts_header # map fact_line keys)"
    by blast
  have a: "\<exists>start score row.
          (start, score) \<in> set (queryNodes (graph sv) ''entity_vectors'' 5 vec)
          \<and> score > 0.72 \<and> row \<in> set (expand (graph sv) start) \<and> k = triple_of row"
    if "k \<in> set keys" for k
  proof -
    from that s(1) obtain row where r: "row \<in> set (triple_query (graph sv) vec)" "k = triple_of row"
      by auto
    from triple_query_anchor [OF r(1)] r(2) show ?thesis by blast
  qed
  have b: "keys = []"
    if "\<forall>(start, score) \<in> set (queryNodes (graph sv) ''entity_vectors'' 5 vec). score \<le> 0.72"
  proof (rule ccontr)
    assume "keys \<noteq> []"
    then obtain k where "k \<in> set keys" by (cases keys) auto
    from a [OF this] obtain start score where
      "(start, score) \<in> set (queryNodes (graph sv) ''entity_vectors'' 5 vec)" "score > 0.72"
      by blast
    with that show False by fastforce
  qed
  from s(2) a b show ?thesis by blast
qed

text \<open>
  With KRAS at exactly 0.72 and BRAF at 0.4, both with a relationship to expand, the
  facts section is its header alone; with EGFR at 0.91 beside them, every fact line
  starts from EGFR.
\<close>

theorem low_score_entities_not_expanded_witness:
  "embed_query cold_services sample_query = Inr [0.1, 0.2, 0.3]
   \<and> fst (run_hybrid_query cold_services sample_query)
        = Inr (''Gefitinib and erlotinib inhibit EGFR.'', cold_evidence)
   \<and> queryNodes cold_db ''entity_vectors'' 5 [0.1, 0.2, 0.3] = [(13, 0.72), (14, 0.4)]
   \<and> expand cold_db 13
        = [\<lparr>row_s = PStr ''KRAS'', row_rel = ''ACTIVATES'', row_t = PStr ''MEK'', row_ev = PNone\<rparr>]
   \<and> (\<exists>texts. cold_evidence = str_join ''\<newline>'' (lit_header # map snippet_line texts)
           @ ''\<newline>'' @ str_join ''\<newline>'' [facts_header])
   \<and> embed_query sample_services sample_query = Inr [0.1, 0.2, 0.3]
   \<and> fst (run_hybrid_query sample_services sample_query)
        = Inr (''Gefitinib and erlotinib inhibit EGFR.'', sample_evidence)
   \<and> (\<exists>texts keys. sample_evidence = str_join ''\<newline>'' (lit_header # map snippet_line texts)
           @ ''\<newline>'' @ str_join ''\<newline>'' (facts_header # map fact_line keys)
        \<and> list_all (\<lambda>k. take 4 k = ''EGFR'') keys)"
proof -
  have g: "graph cold_services = cold_db" by (simp add: cold_services_def)
  have gs: "graph sample_services = sample_db" by (simp add: sample_services_def)
  from low_score_entities_not_expanded [OF cold_embed cold_run]
  obtain texts keys where
    k: "cold_evidence = str_join ''\<newline>'' (lit_header # map snippet_line texts)
           @ ''\<newline>'' @ str_join ''\<newline>'' (facts_header # map fact_line keys)"
       "(\<forall>(start, score) \<in> set (queryNodes (graph cold_services) ''entity_vectors'' 5 [0.1, 0.2, 0.3]).
            score \<le> 0.72) \<longrightarrow> keys = []"
    by blast
  have "keys = []" using k(2) unfolding g cold_index by simp
  with k(1) have c: "\<exists>texts. cold_evidence = str_join ''\<newline>'' (lit_header # map snippet_line texts)
           @ ''\<newline>'' @ str_join ''\<newline>'' [facts_header]"
    by auto
  from low_score_entities_not_expanded [OF sample_embed sample_run]
  obtain texts' keys' where
    k': "sample_evidence = str_join ''\<newline>'' (lit_header # map snippet_line texts')
           @ ''\<newline>'' @ str_join ''\<newline>'' (facts_header # map fact_line keys')"
       "\<forall>k \<in> set keys'. \<exists>start score row.
          (start, score) \<in> set (queryNodes (graph sample_services) ''entity_vectors'' 5 [0.1, 0.2, 0.3])
          \<and> score > 0.72 \<and> row \<in> set (expand (graph sample_services) start) \<and> k = triple_of row"
    by blast
  have q: "queryNodes sample_db ''entity_vectors'' 5 v = [(10, 0.91), (13, 0.72), (14, 0.4)]" for v
    by (simp add: queryNodes_def sample_db_def)
  have e: "expand sample_db 10 =
     [\<lparr>row_s = PStr ''EGFR'', row_rel = ''INHIBITS'', row_t = PStr ''Gefitinib'', row_ev = PStr ''trial A''\<rparr>,
      \<lparr>row_s = PStr ''EGFR'', row_rel = ''INHIBITS'', row_t = PStr ''Gefitinib'', row_ev = PStr ''trial B''\<rparr>,
      \<lparr>row_s = PStr ''EGFR'', row_rel = ''INHIBITS'', row_t = PStr ''Erlotinib'', row_ev = PNone\<rparr>]"
    by (simp add: sample_db_def sample_props_def expand_def match_hop_def sample_relationships_def)
  have "take 4 k = ''EGFR''" if "k \<in> set keys'" for k
  proof -
    from k'(2) that obtain start score row where
      r: "(start, score) \<in> set (queryNodes sample_db ''entity_vectors'' 5 [0.1, 0.2, 0.3])"
         "score > 0.72" "row \<in> set (expand sample_db start)" "k = triple_of row"
      unfolding gs by blast
    from r(1,2) have "start = 10" unfolding q by auto
    with r(3) have "row \<in> set (expand sample_db 10)" by simp
    then show ?thesis unfolding e r(4) by (auto simp: triple_of_def)
  qed
  then have "list_all (\<lambda>k. take 4 k = ''EGFR'') keys'" by (simp add: list_all_iff)
  with k'(1) have s: "\<exists>texts keys. sample_evidence = str_join ''\<newline>'' (lit_header # map snippet_line texts)
           @ ''\<newline>'' @ str_join ''\<newline>'' (facts_header # map fact_line keys)
        \<and> list_all (\<lambda>k. take 4 k = ''EGFR'') keys" by blast
  show ?thesis
    using c s by (simp add: cold_embed cold_run cold_index cold_expand sample_embed sample_run)
qed


text \<open>
  C4. The evidence of a run that returned is the literature header and the snippet
  lines joined by newlines, a newline, and the facts header and the fact lines joined by
  newlines, whatever the number of snippet and fact lines; it is the join of the one
  list \<^verbatim>\<open>evidence_dump\<close>. The last call of the run hands the generative model the
  prompt built from this evidence.
\<close>

theorem evidence_is_literature_then_facts:
  assumes "embed_query sv q = Inr vec"
    and "run_hybrid_query sv q = (Inr (ans, ev), t)"
  shows "\<exists>texts keys.
      map row_text (chunk_query (graph sv) vec) = map PStr texts
    \<and> set keys = triple_of ` set (triple_query (graph sv) vec) \<and> distinct keys
    \<and> ev = str_join ''\<newline>'' (lit_header # map snippet_line texts)
           @ ''\<newline>'' @ str_join ''\<newline>'' (facts_header # map fact_line keys)
    \<and> ev = str_join ''\<newline>''
             (lit_header # map snippet_line texts @ facts_header # map fact_line keys)
    \<and> last t = GenerateContent gen_model (sys_prompt ev q)"
proof -
  from evidence_split [OF assms] obtain texts keys where
    s: "map row_text (chunk_query (graph sv) vec) = map PStr texts"
       "set keys = triple_of ` set (triple_query (graph sv) vec)" "distinct keys"
       "ev = str_join ''\<newline>'' (lit_header # map snippet_line texts)
           @ ''\<newline>'' @ str_join ''\<newline>'' (facts_header # map fact_line keys)"
       "t = [EmbedContent embed_model q, DriverSession, SessionRun ChunkQuery vec,
            SessionRun TripleQuery vec, Print (debug_line (length keys) q), SessionClose,
            GenerateContent gen_model (sys_prompt ev q)]"
    by blast
  have "str_join ''\<newline>'' ((lit_header # map snippet_line texts) @ (facts_header # map fact_line keys))
      = str_join ''\<newline>'' (lit_header # map snippet_line texts)
           @ ''\<newline>'' @ str_join ''\<newline>'' (facts_header # map fact_line keys)"
    by (rule str_join_append) simp_all
  then have j: "ev = str_join ''\<newline>''
             (lit_header # map snippet_line texts @ facts_header # map fact_line keys)"
    using s(4) by simp
  have l: "last t = GenerateContent gen_model (sys_prompt ev q)" unfolding s(5) by simp
  from s(1,2,3,4) j l show ?thesis by blast
qed

text \<open>
  With no chunk and no fact the evidence is the two headers; on the small knowledge base
  it has two snippet lines and then two fact lines.
\<close>

theorem evidence_is_literature_then_facts_witness:
  "embed_query cold_services sample_query = Inr [0.1, 0.2, 0.3]
   \<and> fst (run_hybrid_query cold_services sample_query)
        = Inr (''Gefitinib and erlotinib inhibit EGFR.'', cold_evidence)
   \<and> cold_evidence = str_join ''\<newline>'' [lit_header] @ ''\<newline>'' @ str_join ''\<newline>'' [facts_header]
   \<and> embed_query sample_services sample_query = Inr [0.1, 0.2, 0.3]
   \<and> fst (run_hybrid_query sample_services sample_query)
        = Inr (''Gefitinib and erlotinib inhibit EGFR.'', sample_evidence)
   \<and> (\<exists>texts keys. length texts = 2 \<and> length keys = 2
        \<and> sample_evidence = str_join ''\<newline>'' (lit_header # map snippet_line texts)
           @ ''\<newline>'' @ str_join ''\<newline>'' (facts_header # map fact_line keys))"
proof -
  have g: "graph cold_services = cold_db" by (simp add: cold_services_def)
  have gs: "graph sample_services = sample_db" by (simp add: sample_services_def)
  from evidence_is_literature_then_facts [OF cold_embed cold_run]
  obtain texts keys where
    k: "map row_text (chunk_query (graph cold_services) [0.1, 0.2, 0.3]) = map PStr texts"
       "set keys = triple_of ` set (triple_query (graph cold_services) [0.1, 0.2, 0.3])"
       "cold_evidence = str_join ''\<newline>'' (lit_header # map snippet_line texts)
           @ ''\<newline>'' @ str_join ''\<newline>'' (facts_header # map fact_line keys)"
    by blast
  have "texts = []" "keys = []" using k(1,2) unfolding g cold_chunks cold_triples by simp_all
  with k(3) have c: "cold_evidence = str_join ''\<newline>'' [lit_header] @ ''\<newline>'' @ str_join ''\<newline>'' [facts_header]"
    by simp
  from evidence_is_literature_then_facts [OF sample_embed sample_run]
  obtain texts' keys' where
    k': "map row_text (chunk_query (graph sample_services) [0.1, 0.2, 0.3]) = map PStr texts'"
       "set keys' = triple_of ` set (triple_query (graph sample_services) [0.1, 0.2, 0.3])"
       "distinct keys'"
       "sample_evidence = str_join ''\<newline>'' (lit_header # map snippet_line texts')
           @ ''\<newline>'' @ str_join ''\<newline>'' (facts_header # map fact_line keys')"
    by blast
  have "length (map PStr texts') = 2" using k'(1) [symmetric] unfolding gs sample_chunks by simp
  then have lt: "length texts' = 2" by simp
  have "set keys' = {''EGFR -> INHIBITS -> Gefitinib'', ''EGFR -> INHIBITS -> Erlotinib''}"
    unfolding k'(2) gs sample_triples by (simp add: triple_of_def)
  then have "card (set keys') = 2" by simp
  then have lk: "length keys' = 2" using k'(3) by (simp add: distinct_card)
  from lt lk k'(4) have s: "\<exists>texts keys. length texts = 2 \<and> length keys = 2
        \<and> sample_evidence = str_join ''\<newline>'' (lit_header # map snippet_line texts)
           @ ''\<newline>'' @ str_join ''\<newline>'' (facts_header # map fact_line keys)" by blast
  show ?thesis
    using c s by (simp add: cold_embed cold_run sample_embed sample_run)
qed

text \<open>
  C5. When the embedding call raises, or answers with an empty list of embeddings so
  that taking the first one raises \<^verbatim>\<open>IndexError\<close>, the function returns the text
  \<open>Embedding Error: \<close> followed by the exception's text as its answer and the empty
  string as its evidence. The embedding call is the only call the run has made: no
  session was asked of the driver and no query was run.
\<close>

theorem embedding_failure_short_circuits:
  assumes "embed_content sv embed_model q = Inl e
     \<or> (embed_content sv embed_model q = Inr [] \<and> e = PyExn ''IndexError'' ''list index out of range'')"
  shows "run_hybrid_query sv q
           = (Inr (''Embedding Error: '' @ exn_str e, ''''), [EmbedContent embed_model q])
     \<and> filter is_db_call (snd (run_hybrid_query sv q)) = []"
proof -
  from assms have "embed_query sv q = Inl e" by (auto simp: embed_query_def)
  then show ?thesis by (simp add: run_hybrid_query_def)
qed

text \<open>Both ways of failing, on services whose embedding call fails.\<close>

theorem embedding_failure_short_circuits_witness:
  "embed_content embed_down_services embed_model sample_query = Inl service_down
   \<and> run_hybrid_query embed_down_services sample_query
        = (Inr (''Embedding Error: connection refused'', ''''), [EmbedContent embed_model sample_query])
   \<and> embed_content no_embedding_services embed_model sample_query = Inr []
   \<and> run_hybrid_query no_embedding_services sample_query
        = (Inr (''Embedding Error: list index out of range'', ''''), [EmbedContent embed_model sample_query])"
proof -
  have a: "embed_content embed_down_services embed_model sample_query = Inl service_down"
    by (simp add: embed_down_services_def)
  have b: "embed_content no_embedding_services embed_model sample_query = Inr []"
    by (simp add: no_embedding_services_def)
  show ?thesis
    using a b
      embedding_failure_short_circuits [of embed_down_services sample_query service_down]
      embedding_failure_short_circuits [of no_embedding_services sample_query
        "PyExn ''IndexError'' ''list index out of range''"]
    by (simp add: service_down_def)
qed


text \<open>
  C6. Two calls with the same query text, on services that give the same answer to the
  embedding call and the same rows, in the same order, to the two queries: when both
  return, the evidence is the same string, and it is fixed by the rows of the call: the
  headers, a snippet line for each chunk row, and a fact line for each row whose
  composite key is not the key of an earlier row of this call, in the rows' order. The
  loop over the rows starts from the empty set in every call; started from another set
  it would leave out the keys in that set. Nothing passes from one call to the next: a
  second submission of the same input, run on the history the first one left, makes the
  calls the first one made, with the same count of unique facts printed and the same
  evidence in its prompt.
\<close>

theorem evidence_is_reproducible:
  assumes e: "embed_content sv1 embed_model q = embed_content sv2 embed_model q"
    and c: "\<And>vec. embed_query sv1 q = Inr vec \<Longrightarrow>
              chunk_query (graph sv1) vec = chunk_query (graph sv2) vec"
    and r: "\<And>vec. embed_query sv1 q = Inr vec \<Longrightarrow>
              triple_query (graph sv1) vec = triple_query (graph sv2) vec"
    and r1: "run_hybrid_query sv1 q = (Inr (ans1, ev1), t1)"
    and r2: "run_hybrid_query sv2 q = (Inr (ans2, ev2), t2)"
  shows "ev1 = ev2
    \<and> (\<forall>vec. embed_query sv1 q = Inr vec \<longrightarrow>
          (\<exists>texts. map row_text (chunk_query (graph sv1) vec) = map PStr texts
             \<and> ev1 = str_join ''\<newline>''
                   (lit_header # map snippet_line texts
                      @ facts_header
                      # map fact_line (new_keys {} (map triple_of (triple_query (graph sv1) vec))))
             \<and> with_session (graph sv1) vec q
                 = (Inr (fst (facts_loop (triple_query (graph sv1) vec)
                               (lit_header # map snippet_line texts @ [facts_header], {}))),
                    [DriverSession, SessionRun ChunkQuery vec, SessionRun TripleQuery vec,
                     Print (debug_line (card (triple_of ` set (triple_query (graph sv1) vec))) q),
                     SessionClose])))
    \<and> facts_loop rows (dump, seen)
         = (dump @ map fact_line (new_keys seen (map triple_of rows)), seen \<union> triple_of ` set rows)
    \<and> snd (chat sv1 history [q, q]) = (if q = [] then [ [], [] ] else [t1, t1])"
proof -
  have q: "embed_query sv1 q = embed_query sv2 q" using e by (simp add: embed_query_def)
  have same: "ev1 = ev2"
  proof (cases "embed_query sv1 q")
    case (Inl x)
    with q have "embed_query sv2 q = Inl x" by simp
    with Inl r1 r2 show ?thesis by (simp add: run_hybrid_query_def)
  next
    case (Inr vec)
    with q have v2: "embed_query sv2 q = Inr vec" by simp
    from run_hybrid_query_Inr [OF Inr r1] obtain d1 u1 where
      w1: "with_session (graph sv1) vec q = (Inr d1, u1)" and e1: "ev1 = str_join ''\<newline>'' d1"
      by blast
    from run_hybrid_query_Inr [OF v2 r2] obtain d2 u2 where
      w2: "with_session (graph sv2) vec q = (Inr d2, u2)" and e2: "ev2 = str_join ''\<newline>'' d2"
      by blast
    from with_session_Inr [OF w1] obtain x1 where
      f1: "session_fault (graph sv1) = None" "run_fault (graph sv1) ChunkQuery = None"
          "run_fault (graph sv1) TripleQuery = None"
          "map row_text (chunk_query (graph sv1) vec) = map PStr x1" by blast
    from with_session_Inr [OF w2] obtain x2 where
      f2: "session_fault (graph sv2) = None" "run_fault (graph sv2) ChunkQuery = None"
          "run_fault (graph sv2) TripleQuery = None"
          "map row_text (chunk_query (graph sv2) vec) = map PStr x2" by blast
    have "map PStr x1 = map PStr x2" using f1(4) f2(4) c [OF Inr] by simp
    then have x: "x1 = x2" by (rule map_PStr_inj)
    have "d1 = d2"
      using with_session_ok [OF f1, of q] with_session_ok [OF f2, of q] w1 w2 x r [OF Inr]
      by simp
    with e1 e2 show ?thesis by simp
  qed
  have shape: "\<exists>texts. map row_text (chunk_query (graph sv1) vec) = map PStr texts
             \<and> ev1 = str_join ''\<newline>''
                   (lit_header # map snippet_line texts
                      @ facts_header
                      # map fact_line (new_keys {} (map triple_of (triple_query (graph sv1) vec))))
             \<and> with_session (graph sv1) vec q
                 = (Inr (fst (facts_loop (triple_query (graph sv1) vec)
                               (lit_header # map snippet_line texts @ [facts_header], {}))),
                    [DriverSession, SessionRun ChunkQuery vec, SessionRun TripleQuery vec,
                     Print (debug_line (card (triple_of ` set (triple_query (graph sv1) vec))) q),
                     SessionClose])"
    if v: "embed_query sv1 q = Inr vec" for vec
  proof -
    from run_hybrid_query_Inr [OF v r1] obtain d1 u1 where
      w1: "with_session (graph sv1) vec q = (Inr d1, u1)" and e1: "ev1 = str_join ''\<newline>'' d1"
      by blast
    from with_session_Inr [OF w1] obtain texts where
      f1: "session_fault (graph sv1) = None" "run_fault (graph sv1) ChunkQuery = None"
          "run_fault (graph sv1) TripleQuery = None"
          "map row_text (chunk_query (graph sv1) vec) = map PStr texts" by blast
    note ok = with_session_ok [OF f1, of q]
    have l: "facts_loop (triple_query (graph sv1) vec)
               (lit_header # map snippet_line texts @ [facts_header], {})
         = ((lit_header # map snippet_line texts @ [facts_header])
              @ map fact_line (new_keys {} (map triple_of (triple_query (graph sv1) vec))),
            {} \<union> triple_of ` set (triple_query (graph sv1) vec))"
      by (rule facts_loop_new_keys)
    have d: "d1 = lit_header # map snippet_line texts
                      @ facts_header
                      # map fact_line (new_keys {} (map triple_of (triple_query (graph sv1) vec)))"
      using ok w1 l by simp
    have s: "with_session (graph sv1) vec q
                 = (Inr (fst (facts_loop (triple_query (graph sv1) vec)
                               (lit_header # map snippet_line texts @ [facts_header], {}))),
                    [DriverSession, SessionRun ChunkQuery vec, SessionRun TripleQuery vec,
                     Print (debug_line (card (triple_of ` set (triple_query (graph sv1) vec))) q),
                     SessionClose])"
      unfolding ok l by simp
    from f1(4) e1 d s show ?thesis by blast
  qed
  have ch: "snd (chat sv1 history [q, q]) = (if q = [] then [ [], [] ] else [t1, t1])"
    unfolding chat_twice using r1 by simp
  from same shape facts_loop_new_keys [of rows dump seen] ch show ?thesis by blast
qed


text \<open>
  Two services with one knowledge base and different generative models: the answers
  differ, the evidence is the same. Two submissions in a row make the same calls. Had
  the two triples of the first call still been in the set, the loop of the second would
  have added no fact line.
\<close>

theorem evidence_is_reproducible_witness:
  "embed_content sample_services embed_model sample_query
     = embed_content other_answer_services embed_model sample_query
   \<and> graph sample_services = graph other_answer_services
   \<and> fst (run_hybrid_query sample_services sample_query)
        = Inr (''Gefitinib and erlotinib inhibit EGFR.'', sample_evidence)
   \<and> fst (run_hybrid_query other_answer_services sample_query)
        = Inr (''EGFR is inhibited by gefitinib.'', sample_evidence)
   \<and> new_keys {} (map triple_of (triple_query sample_db [0.1, 0.2, 0.3]))
        = [''EGFR -> INHIBITS -> Gefitinib'', ''EGFR -> INHIBITS -> Erlotinib'']
   \<and> snd (chat sample_services [(''user'', ''Hello'')] [sample_query, sample_query])
        = [ [EmbedContent embed_model sample_query, DriverSession,
            SessionRun ChunkQuery [0.1, 0.2, 0.3], SessionRun TripleQuery [0.1, 0.2, 0.3],
            Print (''DEBUG: Found 2 unique graph facts for query: '' @ [CHR 0x27] @ sample_query @ [CHR 0x27]),
            SessionClose,
            GenerateContent gen_model (sys_prompt sample_evidence sample_query)],
           [EmbedContent embed_model sample_query, DriverSession,
            SessionRun ChunkQuery [0.1, 0.2, 0.3], SessionRun TripleQuery [0.1, 0.2, 0.3],
            Print (''DEBUG: Found 2 unique graph facts for query: '' @ [CHR 0x27] @ sample_query @ [CHR 0x27]),
            SessionClose,
            GenerateContent gen_model (sys_prompt sample_evidence sample_query)] ]
   \<and> facts_loop (triple_query sample_db [0.1, 0.2, 0.3])
          ([facts_header], {''EGFR -> INHIBITS -> Gefitinib'', ''EGFR -> INHIBITS -> Erlotinib''})
        = ([facts_header], {''EGFR -> INHIBITS -> Gefitinib'', ''EGFR -> INHIBITS -> Erlotinib''})"
proof -
  have g: "graph sample_services = graph other_answer_services"
    by (simp add: other_answer_services_def)
  have e: "embed_content sample_services embed_model sample_query
     = embed_content other_answer_services embed_model sample_query"
    by (simp add: other_answer_services_def)
  obtain ev2 t2 where r2: "run_hybrid_query other_answer_services sample_query
     = (Inr (''EGFR is inhibited by gefitinib.'', ev2), t2)"
    using other_answer_run by (cases "run_hybrid_query other_answer_services sample_query") auto
  have c: "chunk_query (graph sample_services) vec = chunk_query (graph other_answer_services) vec"
    for vec using g by simp
  have r: "triple_query (graph sample_services) vec = triple_query (graph other_answer_services) vec"
    for vec using g by simp
  note th = evidence_is_reproducible [OF e c r sample_run r2]
  have q: "sample_query \<noteq> []" by (simp add: sample_query_def)
  have same: "sample_evidence = ev2" using th by blast
  have o: "fst (run_hybrid_query other_answer_services sample_query)
        = Inr (''EGFR is inhibited by gefitinib.'', sample_evidence)"
    using r2 same by simp
  have k: "map triple_of (triple_query sample_db [0.1, 0.2, 0.3])
      = [''EGFR -> INHIBITS -> Gefitinib'', ''EGFR -> INHIBITS -> Gefitinib'',
         ''EGFR -> INHIBITS -> Erlotinib'']"
    by (simp add: sample_triples triple_of_def)
  have n: "new_keys {} (map triple_of (triple_query sample_db [0.1, 0.2, 0.3]))
        = [''EGFR -> INHIBITS -> Gefitinib'', ''EGFR -> INHIBITS -> Erlotinib'']"
    unfolding k by (simp add: new_keys_Cons new_keys_Nil)
  have ch: "snd (chat sample_services [(''user'', ''Hello'')] [sample_query, sample_query])
        = [ [EmbedContent embed_model sample_query, DriverSession,
            SessionRun ChunkQuery [0.1, 0.2, 0.3], SessionRun TripleQuery [0.1, 0.2, 0.3],
            Print (''DEBUG: Found 2 unique graph facts for query: '' @ [CHR 0x27] @ sample_query @ [CHR 0x27]),
            SessionClose,
            GenerateContent gen_model (sys_prompt sample_evidence sample_query)],
           [EmbedContent embed_model sample_query, DriverSession,
            SessionRun ChunkQuery [0.1, 0.2, 0.3], SessionRun TripleQuery [0.1, 0.2, 0.3],
            Print (''DEBUG: Found 2 unique graph facts for query: '' @ [CHR 0x27] @ sample_query @ [CHR 0x27]),
            SessionClose,
            GenerateContent gen_model (sys_prompt sample_evidence sample_query)] ]"
    using th [of _ _ _ "[(''user'', ''Hello'')]"] q by simp
  have "facts_loop (triple_query sample_db [0.1, 0.2, 0.3])
          ([facts_header], {''EGFR -> INHIBITS -> Gefitinib'', ''EGFR -> INHIBITS -> Erlotinib''})
        = ([facts_header] @ map fact_line (new_keys
              {''EGFR -> INHIBITS -> Gefitinib'', ''EGFR -> INHIBITS -> Erlotinib''}
              (map triple_of (triple_query sample_db [0.1, 0.2, 0.3]))),
           {''EGFR -> INHIBITS -> Gefitinib'', ''EGFR -> INHIBITS -> Erlotinib''}
             \<union> triple_of ` set (triple_query sample_db [0.1, 0.2, 0.3]))"
    using th [of "triple_query sample_db [0.1, 0.2, 0.3]" "[facts_header]"
        "{''EGFR -> INHIBITS -> Gefitinib'', ''EGFR -> INHIBITS -> Erlotinib''}"] by blast
  then have s: "facts_loop (triple_query sample_db [0.1, 0.2, 0.3])
          ([facts_header], {''EGFR -> INHIBITS -> Gefitinib'', ''EGFR -> INHIBITS -> Erlotinib''})
        = ([facts_header], {''EGFR -> INHIBITS -> Gefitinib'', ''EGFR -> INHIBITS -> Erlotinib''})"
    unfolding k by (simp add: new_keys_Cons new_keys_Nil sample_triples triple_of_def)
  have f: "fst (run_hybrid_query sample_services sample_query)
        = Inr (''Gefitinib and erlotinib inhibit EGFR.'', sample_evidence)"
    by (simp add: sample_run)
  from e g f o n ch s show ?thesis by blast
qed


text \<open>
  C7. When the embedding step and the session have succeeded, the run makes one call of
  the generative model. Its prompt is the fixed text around the evidence and the
  question: the persona and the instruction, the evidence as it is, the question as it
  is. The function returns the text the model answered with, unchanged, beside the
  evidence, or the exception the model raised. The calls a submission makes are those of
  \<^verbatim>\<open>run_hybrid_query\<close> on the input alone, whatever the history of the chat.
\<close>

theorem synthesizer_sends_one_prompt:
  assumes "embed_query sv q = Inr vec"
    and "with_session (graph sv) vec q = (Inr dump, t0)"
  shows "filter is_generate (snd (run_hybrid_query sv q))
           = [GenerateContent gen_model (sys_prompt (str_join ''\<newline>'' dump) q)]
    \<and> fst (run_hybrid_query sv q)
           = (case generate_content sv gen_model (sys_prompt (str_join ''\<newline>'' dump) q) of
                Inl e \<Rightarrow> Inl e
              | Inr final_text \<Rightarrow> Inr (final_text, str_join ''\<newline>'' dump))
    \<and> sys_prompt (str_join ''\<newline>'' dump) q
           = ''\<newline>    You are ARC (Analysis for Research Collaboration). \<newline>    Answer the user's question based strictly on the provided evidence.\<newline>    \<newline>    EVIDENCE:\<newline>    ''
             @ str_join ''\<newline>'' dump
             @ ''\<newline>    \<newline>    QUESTION: '' @ q @ ''\<newline>    ''
    \<and> snd (snd (submit sv history q)) = (if q = [] then [] else snd (run_hybrid_query sv q))"
proof -
  have n: "filter is_generate t0 = []"
    using with_session_trace_no_generate [of "graph sv" vec q] assms(2) by simp
  have a: "filter is_generate (snd (run_hybrid_query sv q))
           = [GenerateContent gen_model (sys_prompt (str_join ''\<newline>'' dump) q)]"
    unfolding run_hybrid_query_ok [OF assms] using n by simp
  have b: "fst (run_hybrid_query sv q)
           = (case generate_content sv gen_model (sys_prompt (str_join ''\<newline>'' dump) q) of
                Inl e \<Rightarrow> Inl e
              | Inr final_text \<Rightarrow> Inr (final_text, str_join ''\<newline>'' dump))"
    unfolding run_hybrid_query_ok [OF assms] by simp
  have c: "sys_prompt (str_join ''\<newline>'' dump) q
           = ''\<newline>    You are ARC (Analysis for Research Collaboration). \<newline>    Answer the user's question based strictly on the provided evidence.\<newline>    \<newline>    EVIDENCE:\<newline>    ''
             @ str_join ''\<newline>'' dump
             @ ''\<newline>    \<newline>    QUESTION: '' @ q @ ''\<newline>    ''"
    by (simp add: sys_prompt_def)
  have d: "snd (snd (submit sv history q)) = (if q = [] then [] else snd (run_hybrid_query sv q))"
    by (simp add: submit_def Let_def split: prod.splits sum.splits)
  from a b c d show ?thesis by blast
qed

text \<open>
  On the small knowledge base: one prompt, the model's answer returned, and the same
  calls after two earlier messages as with no history.
\<close>

theorem synthesizer_sends_one_prompt_witness:
  "embed_query sample_services sample_query = Inr [0.1, 0.2, 0.3]
   \<and> fst (with_session (graph sample_services) [0.1, 0.2, 0.3] sample_query)
        = Inr [lit_header,
           ''- Gefitinib is a selective EGFR tyrosine kinase inhibitor....'',
           ''- Erlotinib blocks EGFR signalling in lung cancer....'',
           facts_header,
           ''FACT: EGFR -> INHIBITS -> Gefitinib'',
           ''FACT: EGFR -> INHIBITS -> Erlotinib'']
   \<and> filter is_generate (snd (run_hybrid_query sample_services sample_query))
        = [GenerateContent gen_model (sys_prompt sample_evidence sample_query)]
   \<and> fst (run_hybrid_query sample_services sample_query)
        = Inr (''Gefitinib and erlotinib inhibit EGFR.'', sample_evidence)
   \<and> snd (snd (submit sample_services [(''user'', ''Hello''), (''assistant'', ''Hi'')] sample_query))
        = snd (snd (submit sample_services [] sample_query))"
proof -
  have g: "graph sample_services = sample_db" by (simp add: sample_services_def)
  have j: "str_join ''\<newline>'' [lit_header,
           ''- Gefitinib is a selective EGFR tyrosine kinase inhibitor....'',
           ''- Erlotinib blocks EGFR signalling in lung cancer....'',
           facts_header,
           ''FACT: EGFR -> INHIBITS -> Gefitinib'',
           ''FACT: EGFR -> INHIBITS -> Erlotinib''] = sample_evidence"
    by (simp add: sample_evidence_def)
  note w = sample_session [of "[0.1, 0.2, 0.3]" sample_query, folded g]
  note th = synthesizer_sends_one_prompt [OF sample_embed w, unfolded j]
  note d = th [THEN conjunct2, THEN conjunct2, THEN conjunct2]
  have h: "snd (snd (submit sample_services [(''user'', ''Hello''), (''assistant'', ''Hi'')] sample_query))
        = snd (snd (submit sample_services [] sample_query))"
    by (simp only: d)
  have f: "filter is_generate (snd (run_hybrid_query sample_services sample_query))
        = [GenerateContent gen_model (sys_prompt sample_evidence sample_query)]"
    by (rule th [of "[]", THEN conjunct1])
  have r: "fst (run_hybrid_query sample_services sample_query)
        = Inr (''Gefitinib and erlotinib inhibit EGFR.'', sample_evidence)"
    by (simp add: sample_run)
  have s: "fst (with_session (graph sample_services) [0.1, 0.2, 0.3] sample_query)
        = Inr [lit_header,
           ''- Gefitinib is a selective EGFR tyrosine kinase inhibitor....'',
           ''- Erlotinib blocks EGFR signalling in lung cancer....'',
           facts_header,
           ''FACT: EGFR -> INHIBITS -> Gefitinib'',
           ''FACT: EGFR -> INHIBITS -> Erlotinib'']"
    unfolding w by simp
  from sample_embed s f r h show ?thesis by blast
qed



text \<open>
  C8. After the embedding step has succeeded, an exception raised in the session leaves
  \<^verbatim>\<open>run_hybrid_query\<close>: the one raised by \<^verbatim>\<open>driver.session()\<close>, by either
  \<^verbatim>\<open>sess.run\<close>, or by slicing a text that is \<^verbatim>\<open>None\<close>; an opened session is closed
  on the way. So does the exception raised by the generative model. The function turns
  none of them into an answer.
\<close>

theorem database_and_model_exceptions_propagate:
  assumes "embed_query sv q = Inr vec"
  shows "(with_session (graph sv) vec q = (Inl e, t0)
            \<longrightarrow> run_hybrid_query sv q = (Inl e, EmbedContent embed_model q # t0))
    \<and> (session_fault (graph sv) = Some e
            \<longrightarrow> run_hybrid_query sv q = (Inl e, [EmbedContent embed_model q, DriverSession]))
    \<and> (session_fault (graph sv) = None \<and> run_fault (graph sv) ChunkQuery = Some e
            \<longrightarrow> run_hybrid_query sv q
                  = (Inl e, [EmbedContent embed_model q, DriverSession,
                             SessionRun ChunkQuery vec, SessionClose]))
    \<and> (session_fault (graph sv) = None \<and> run_fault (graph sv) ChunkQuery = None
          \<and> PNone \<in> row_text ` set (chunk_query (graph sv) vec)
            \<longrightarrow> run_hybrid_query sv q
                  = (Inl none_not_subscriptable, [EmbedContent embed_model q, DriverSession,
                             SessionRun ChunkQuery vec, SessionClose]))
    \<and> (session_fault (graph sv) = None \<and> run_fault (graph sv) ChunkQuery = None
          \<and> map row_text (chunk_query (graph sv) vec) = map PStr texts
          \<and> run_fault (graph sv) TripleQuery = Some e
            \<longrightarrow> run_hybrid_query sv q
                  = (Inl e, [EmbedContent embed_model q, DriverSession,
                             SessionRun ChunkQuery vec, SessionRun TripleQuery vec, SessionClose]))
    \<and> (with_session (graph sv) vec q = (Inr dump, t0)
          \<and> generate_content sv gen_model (sys_prompt (str_join ''\<newline>'' dump) q) = Inl e
            \<longrightarrow> run_hybrid_query sv q
                  = (Inl e, EmbedContent embed_model q # t0
                       @ [GenerateContent gen_model (sys_prompt (str_join ''\<newline>'' dump) q)]))"
proof -
  have a: "run_hybrid_query sv q = (Inl e, EmbedContent embed_model q # t0)"
    if "with_session (graph sv) vec q = (Inl e, t0)"
    using with_session_Inl_run [OF assms that] .
  have b: "run_hybrid_query sv q = (Inl e, [EmbedContent embed_model q, DriverSession])"
    if "session_fault (graph sv) = Some e"
  proof -
    have "with_session (graph sv) vec q = (Inl e, [DriverSession])"
      using that by (simp add: with_session_def)
    from with_session_Inl_run [OF assms this] show ?thesis .
  qed
  have c: "run_hybrid_query sv q
                  = (Inl e, [EmbedContent embed_model q, DriverSession,
                             SessionRun ChunkQuery vec, SessionClose])"
    if "session_fault (graph sv) = None \<and> run_fault (graph sv) ChunkQuery = Some e"
  proof -
    have "with_session (graph sv) vec q = (Inl e, [DriverSession, SessionRun ChunkQuery vec, SessionClose])"
      using that by (simp add: with_session_def session_body_def session_run_chunks_def)
    from with_session_Inl_run [OF assms this] show ?thesis .
  qed
  have d: "run_hybrid_query sv q
                  = (Inl none_not_subscriptable, [EmbedContent embed_model q, DriverSession,
                             SessionRun ChunkQuery vec, SessionClose])"
    if "session_fault (graph sv) = None \<and> run_fault (graph sv) ChunkQuery = None
          \<and> PNone \<in> row_text ` set (chunk_query (graph sv) vec)"
  proof -
    from that have "literature_loop (chunk_query (graph sv) vec) [lit_header] = Inl none_not_subscriptable"
      by (simp add: literature_loop_PNone)
    then have "with_session (graph sv) vec q
        = (Inl none_not_subscriptable, [DriverSession, SessionRun ChunkQuery vec, SessionClose])"
      using that by (simp add: with_session_def session_body_def session_run_chunks_def)
    from with_session_Inl_run [OF assms this] show ?thesis .
  qed
  have f: "run_hybrid_query sv q
                  = (Inl e, [EmbedContent embed_model q, DriverSession,
                             SessionRun ChunkQuery vec, SessionRun TripleQuery vec, SessionClose])"
    if "session_fault (graph sv) = None \<and> run_fault (graph sv) ChunkQuery = None
          \<and> map row_text (chunk_query (graph sv) vec) = map PStr texts
          \<and> run_fault (graph sv) TripleQuery = Some e"
  proof -
    from that have "literature_loop (chunk_query (graph sv) vec) [lit_header]
        = Inr ([lit_header] @ map snippet_line texts)"
      using literature_loop_ok [of "chunk_query (graph sv) vec" texts "[lit_header]"] by simp
    then have "with_session (graph sv) vec q
        = (Inl e, [DriverSession, SessionRun ChunkQuery vec, SessionRun TripleQuery vec, SessionClose])"
      using that
      by (simp add: with_session_def session_body_def session_run_chunks_def session_run_triples_def)
    from with_session_Inl_run [OF assms this] show ?thesis .
  qed
  have g: "run_hybrid_query sv q
                  = (Inl e, EmbedContent embed_model q # t0
                       @ [GenerateContent gen_model (sys_prompt (str_join ''\<newline>'' dump) q)])"
    if "with_session (graph sv) vec q = (Inr dump, t0)
          \<and> generate_content sv gen_model (sys_prompt (str_join ''\<newline>'' dump) q) = Inl e"
  proof -
    from that have w: "with_session (graph sv) vec q = (Inr dump, t0)" by simp
    show ?thesis unfolding run_hybrid_query_ok [OF assms w] using that by simp
  qed
  from a b c d f g show ?thesis by blast
qed


text \<open>One run for each of the five ways.\<close>

theorem database_and_model_exceptions_propagate_witness:
  "run_hybrid_query session_down_services sample_query
     = (Inl service_down, [EmbedContent embed_model sample_query, DriverSession])
   \<and> run_hybrid_query chunk_query_down_services sample_query
     = (Inl service_down, [EmbedContent embed_model sample_query, DriverSession,
                           SessionRun ChunkQuery [0.1, 0.2, 0.3], SessionClose])
   \<and> run_hybrid_query null_text_services sample_query
     = (Inl none_not_subscriptable, [EmbedContent embed_model sample_query, DriverSession,
                           SessionRun ChunkQuery [0.1, 0.2, 0.3], SessionClose])
   \<and> run_hybrid_query triple_query_down_services sample_query
     = (Inl service_down, [EmbedContent embed_model sample_query, DriverSession,
                           SessionRun ChunkQuery [0.1, 0.2, 0.3],
                           SessionRun TripleQuery [0.1, 0.2, 0.3], SessionClose])
   \<and> fst (run_hybrid_query gen_down_services sample_query) = Inl service_down"
proof -
  have e1: "embed_query session_down_services sample_query = Inr [0.1, 0.2, 0.3]"
    by (simp add: embed_query_def session_down_services_def sample_services_def)
  have h1: "session_fault (graph session_down_services) = Some service_down"
    by (simp add: session_down_services_def)
  have r1: "run_hybrid_query session_down_services sample_query
     = (Inl service_down, [EmbedContent embed_model sample_query, DriverSession])"
    using database_and_model_exceptions_propagate [OF e1, where e = service_down] h1 by blast
  have e2: "embed_query chunk_query_down_services sample_query = Inr [0.1, 0.2, 0.3]"
    by (simp add: embed_query_def chunk_query_down_services_def sample_services_def)
  have h2: "session_fault (graph chunk_query_down_services) = None
      \<and> run_fault (graph chunk_query_down_services) ChunkQuery = Some service_down"
    by (simp add: chunk_query_down_services_def sample_db_def)
  have r2: "run_hybrid_query chunk_query_down_services sample_query
     = (Inl service_down, [EmbedContent embed_model sample_query, DriverSession,
                           SessionRun ChunkQuery [0.1, 0.2, 0.3], SessionClose])"
    using database_and_model_exceptions_propagate [OF e2, where e = service_down] h2 by blast
  have e3: "embed_query null_text_services sample_query = Inr [0.1, 0.2, 0.3]"
    by (simp add: embed_query_def null_text_services_def sample_services_def)
  have h3: "session_fault (graph null_text_services) = None
      \<and> run_fault (graph null_text_services) ChunkQuery = None
      \<and> PNone \<in> row_text ` set (chunk_query (graph null_text_services) [0.1, 0.2, 0.3])"
    by (simp add: null_text_services_def sample_db_def chunk_query_def queryNodes_def sample_props_def)
  have r3: "run_hybrid_query null_text_services sample_query
     = (Inl none_not_subscriptable, [EmbedContent embed_model sample_query, DriverSession,
                           SessionRun ChunkQuery [0.1, 0.2, 0.3], SessionClose])"
    using database_and_model_exceptions_propagate [OF e3] h3 by blast
  have e4: "embed_query triple_query_down_services sample_query = Inr [0.1, 0.2, 0.3]"
    by (simp add: embed_query_def triple_query_down_services_def sample_services_def)
  have h4: "session_fault (graph triple_query_down_services) = None
      \<and> run_fault (graph triple_query_down_services) ChunkQuery = None
      \<and> map row_text (chunk_query (graph triple_query_down_services) [0.1, 0.2, 0.3])
          = map PStr [''Gefitinib is a selective EGFR tyrosine kinase inhibitor.'',
                      ''Erlotinib blocks EGFR signalling in lung cancer.'']
      \<and> run_fault (graph triple_query_down_services) TripleQuery = Some service_down"
    by (simp add: triple_query_down_services_def sample_db_def chunk_query_def queryNodes_def
        sample_props_def)
  have r4: "run_hybrid_query triple_query_down_services sample_query
     = (Inl service_down, [EmbedContent embed_model sample_query, DriverSession,
                           SessionRun ChunkQuery [0.1, 0.2, 0.3],
                           SessionRun TripleQuery [0.1, 0.2, 0.3], SessionClose])"
    using database_and_model_exceptions_propagate [OF e4, where e = service_down] h4 by blast
  have e5: "embed_query gen_down_services sample_query = Inr [0.1, 0.2, 0.3]"
    by (simp add: embed_query_def gen_down_services_def sample_services_def)
  have g5: "graph gen_down_services = sample_db"
    by (simp add: gen_down_services_def sample_services_def)
  have h5: "with_session (graph gen_down_services) [0.1, 0.2, 0.3] sample_query
        = (Inr [lit_header,
           ''- Gefitinib is a selective EGFR tyrosine kinase inhibitor....'',
           ''- Erlotinib blocks EGFR signalling in lung cancer....'',
           facts_header,
           ''FACT: EGFR -> INHIBITS -> Gefitinib'',
           ''FACT: EGFR -> INHIBITS -> Erlotinib''],
      [DriverSession, SessionRun ChunkQuery [0.1, 0.2, 0.3], SessionRun TripleQuery [0.1, 0.2, 0.3],
       Print (''DEBUG: Found 2 unique graph facts for query: '' @ [CHR 0x27] @ sample_query @ [CHR 0x27]),
       SessionClose])
      \<and> generate_content gen_down_services gen_model (sys_prompt (str_join ''\<newline>'' [lit_header,
           ''- Gefitinib is a selective EGFR tyrosine kinase inhibitor....'',
           ''- Erlotinib blocks EGFR signalling in lung cancer....'',
           facts_header,
           ''FACT: EGFR -> INHIBITS -> Gefitinib'',
           ''FACT: EGFR -> INHIBITS -> Erlotinib'']) sample_query) = Inl service_down"
    unfolding g5 sample_session by (simp add: gen_down_services_def)
  have r5: "fst (run_hybrid_query gen_down_services sample_query) = Inl service_down"
    using database_and_model_exceptions_propagate [OF e5, where e = service_down] h5
    by (metis fst_conv)
  from r1 r2 r3 r4 r5 show ?thesis by blast
qed






end
